theory Spec2Isabelle
  imports Complex_Main "HOL-Library.Word" "HOL-Library.AList"
begin

unbundle bit_operations_syntax

section \<open>Text, as the scraper handles it\<close>

text \<open>
  A Python \<open>str\<close> is a sequence of code points. The embedding keeps the code points
  \<open>U+0000\<close> to \<open>U+00FF\<close>, one \<open>char\<close> each, so that the string literals of the source
  are string literals here. The functions below are the \<open>str\<close> methods the scraper calls,
  restricted to that range.
\<close>

definition code_point :: "char \<Rightarrow> nat" where
  "code_point c = of_char c"

text \<open>\<open>str.strip()\<close> removes the characters for which \<open>str.isspace()\<close> holds.\<close>

definition isspace :: "char \<Rightarrow> bool" where
  "isspace c = (code_point c \<in> set [9, 10, 11, 12, 13, 28, 29, 30, 31, 32, 133, 160])"

definition strip :: "string \<Rightarrow> string" where
  "strip s = rev (dropWhile isspace (rev (dropWhile isspace s)))"

text \<open>\<open>str.lower()\<close>: the capital letters below \<open>U+0100\<close> are \<open>A\<close> to \<open>Z\<close> and
  \<open>U+00C0\<close> to \<open>U+00DE\<close> without the multiplication sign \<open>U+00D7\<close>; each has its
  small letter 32 places further on.\<close>

definition lower_char :: "char \<Rightarrow> char" where
  "lower_char c =
     (let n = code_point c
      in if (65 \<le> n \<and> n \<le> 90) \<or> (192 \<le> n \<and> n \<le> 222 \<and> n \<noteq> 215)
         then char_of (n + 32) else c)"

definition lower :: "string \<Rightarrow> string" where
  "lower s = map lower_char s"

text \<open>\<open>s.startswith(p)\<close> and \<open>p in s\<close>.\<close>

fun startswith :: "string \<Rightarrow> string \<Rightarrow> bool" where
  "startswith s [] = True"
| "startswith [] (p # ps) = False"
| "startswith (c # cs) (p # ps) = (c = p \<and> startswith cs ps)"

fun contains :: "string \<Rightarrow> string \<Rightarrow> bool" where
  "contains p [] = (p = [])"
| "contains p (c # cs) = (startswith (c # cs) p \<or> contains p cs)"

text \<open>\<open>str.encode()\<close>: UTF-8, one byte below \<open>U+0080\<close> and two bytes from there to
  \<open>U+00FF\<close>. Bytes are numbers below 256.\<close>

definition utf8_encode :: "string \<Rightarrow> nat list" where
  "utf8_encode s = concat (map (\<lambda>c. let n = code_point c in
       if n < 128 then [n] else [192 + n div 64, 128 + n mod 64]) s)"

section \<open>Faults\<close>

text \<open>
  An exception is a value: \<open>Fault d\<close> is an exception whose \<open>str()\<close> is \<open>d\<close>. A call
  that may raise returns \<open>Inl\<close> of the fault or \<open>Inr\<close> of its result, and
  \<open>and_then\<close> sequences two such calls, as one statement after another does inside a
  \<open>try\<close> block.
\<close>

datatype fault = Fault string

type_synonym 'a result = "fault + 'a"

definition and_then :: "'a result \<Rightarrow> ('a \<Rightarrow> 'b result) \<Rightarrow> 'b result" where
  "and_then m f = (case m of Inl e \<Rightarrow> Inl e | Inr x \<Rightarrow> f x)"

definition description :: "fault \<Rightarrow> string" where
  "description e = (case e of Fault d \<Rightarrow> d)"

section \<open>Floats\<close>

text \<open>
  A float is read as the exact decimal it was written as; binary rounding, overflow to
  infinity and underflow to zero are outside the embedding. \<open>py_float\<close> is the builtin
  \<open>float\<close> on a string: surrounding whitespace is dropped, then an optional sign and
  either \<open>inf\<close>, \<open>infinity\<close>, \<open>nan\<close> (in any case) or a decimal number with optional
  fraction and exponent, whose digit groups may hold single underscores between digits.
  Anything else raises \<open>ValueError\<close>.
\<close>

datatype pyfloat = Finite rat | PosInf | NegInf | NaN

definition is_digit :: "char \<Rightarrow> bool" where
  "is_digit c = (48 \<le> code_point c \<and> code_point c \<le> 57)"

definition digit_val :: "char \<Rightarrow> nat" where
  "digit_val c = code_point c - 48"

definition float_space :: "char \<Rightarrow> bool" where
  "float_space c = (code_point c \<in> set [9, 10, 11, 12, 13, 32, 133, 160])"

fun digits_tail :: "string \<Rightarrow> nat list \<times> string" where
  "digits_tail [] = ([], [])"
| "digits_tail [c] = (if is_digit c then ([digit_val c], []) else ([], [c]))"
| "digits_tail (c # d # cs) =
     (if is_digit c then (case digits_tail (d # cs) of (ds, r) \<Rightarrow> (digit_val c # ds, r))
      else if c = CHR ''_'' \<and> is_digit d
           then (case digits_tail cs of (ds, r) \<Rightarrow> (digit_val d # ds, r))
      else ([], c # d # cs))"

definition digitpart :: "string \<Rightarrow> (nat list \<times> string) option" where
  "digitpart s = (case s of [] \<Rightarrow> None
     | c # cs \<Rightarrow> if is_digit c
                then (case digits_tail cs of (ds, r) \<Rightarrow> Some (digit_val c # ds, r))
                else None)"

definition number_of_digits :: "nat list \<Rightarrow> nat" where
  "number_of_digits ds = foldl (\<lambda>acc d. 10 * acc + d) 0 ds"

definition take_sign :: "string \<Rightarrow> bool \<times> string" where
  "take_sign s = (case s of [] \<Rightarrow> (False, [])
     | c # cs \<Rightarrow> if c = CHR ''-'' then (True, cs)
                else if c = CHR ''+'' then (False, cs) else (False, c # cs))"

definition exponent :: "string \<Rightarrow> (int \<times> string) option" where
  "exponent s = (case s of [] \<Rightarrow> Some (0, [])
     | c # cs \<Rightarrow>
         if c = CHR ''e'' \<or> c = CHR ''E''
         then (case take_sign cs of (neg, r) \<Rightarrow>
                 (case digitpart r of None \<Rightarrow> None
                  | Some (ds, r') \<Rightarrow>
                      Some (if neg then - int (number_of_digits ds)
                            else int (number_of_digits ds), r')))
         else Some (0, c # cs))"

definition scale :: "nat \<Rightarrow> int \<Rightarrow> rat" where
  "scale m e = (if 0 \<le> e then of_nat m * 10 ^ nat e else of_nat m / 10 ^ nat (- e))"

definition floatnumber :: "string \<Rightarrow> rat option" where
  "floatnumber s =
     (let (ip, r1) = (case digitpart s of None \<Rightarrow> (None, s) | Some (ds, r) \<Rightarrow> (Some ds, r));
          (dot, r2) = (case r1 of [] \<Rightarrow> (False, [])
                       | c # cs \<Rightarrow> if c = CHR ''.'' then (True, cs) else (False, c # cs));
          (fp, r3) = (if dot then (case digitpart r2 of None \<Rightarrow> (None, r2)
                                   | Some (ds, r) \<Rightarrow> (Some ds, r))
                      else (None, r2))
      in if ip = None \<and> fp = None then None
         else (case exponent r3 of None \<Rightarrow> None
               | Some (e, r4) \<Rightarrow>
                   if r4 \<noteq> [] then None
                   else (let ids = (case ip of None \<Rightarrow> [] | Some ds \<Rightarrow> ds);
                             fds = (case fp of None \<Rightarrow> [] | Some ds \<Rightarrow> ds)
                         in Some (scale (number_of_digits (ids @ fds))
                                        (e - int (length fds))))))"

definition py_float :: "string \<Rightarrow> pyfloat result" where
  "py_float s =
     (let t = rev (dropWhile float_space (rev (dropWhile float_space s)));
          (neg, body) = take_sign t
      in if lower body = ''inf'' \<or> lower body = ''infinity''
         then Inr (if neg then NegInf else PosInf)
         else if lower body = ''nan'' then Inr NaN
         else (case floatnumber body of
                 None \<Rightarrow> Inl (Fault ''could not convert string to float'')
               | Some q \<Rightarrow> Inr (Finite (if neg then - q else q))))"

section \<open>The coordinate parser\<close>

text \<open>
  The pattern of \<open>parse_coordinates_from_url\<close> is
  \<^verbatim>\<open>[@q=](-?\d+\.\d+),(-?\d+\.\d+)\<close>: one character out of \<open>@\<close>, \<open>q\<close>, \<open>=\<close>, then two
  groups separated by a comma. A group is an optional minus sign, a run of digits, a dot
  and a run of digits. Each run is followed by a character that is no digit (or by the
  end of the match), so the greedy run is the longest one and no shorter run can match:
  \<open>match_group\<close> reads a group from the front of a string and returns it with the rest.
  \<open>re_search\<close> tries every start position from the left, as \<open>re.search\<close> does.
\<close>

definition match_group :: "string \<Rightarrow> (string \<times> string) option" where
  "match_group s =
     (let (sgn, s1) = (case s of [] \<Rightarrow> ([], [])
                       | c # cs \<Rightarrow> if c = CHR ''-'' then ([c], cs) else ([], c # cs));
          ip = takeWhile is_digit s1;
          s2 = dropWhile is_digit s1
      in if ip = [] then None
         else (case s2 of [] \<Rightarrow> None
               | c # s3 \<Rightarrow>
                   if c \<noteq> CHR ''.'' then None
                   else (let fp = takeWhile is_digit s3; s4 = dropWhile is_digit s3
                         in if fp = [] then None
                            else Some (sgn @ ip @ [c] @ fp, s4))))"

definition match_here :: "string \<Rightarrow> (string \<times> string) option" where
  "match_here s = (case s of [] \<Rightarrow> None
     | c # cs \<Rightarrow>
         if c = CHR ''@'' \<or> c = CHR ''q'' \<or> c = CHR ''=''
         then (case match_group cs of None \<Rightarrow> None
               | Some (g1, r1) \<Rightarrow>
                   (case r1 of [] \<Rightarrow> None
                    | d # r2 \<Rightarrow>
                        if d = CHR '',''
                        then (case match_group r2 of None \<Rightarrow> None
                              | Some (g2, r3) \<Rightarrow> Some (g1, g2))
                        else None))
         else None)"

fun re_search :: "string \<Rightarrow> (string \<times> string) option" where
  "re_search [] = None"
| "re_search (c # cs) =
     (case match_here (c # cs) of Some m \<Rightarrow> Some m | None \<Rightarrow> re_search cs)"

definition parse_coordinates_from_url ::
    "string option \<Rightarrow> (pyfloat \<times> pyfloat) option result" where
  "parse_coordinates_from_url url =
     (case url of None \<Rightarrow> Inr None
      | Some u \<Rightarrow>
          if u = [] then Inr None
          else (case re_search u of
                  Some (g1, g2) \<Rightarrow>
                    and_then (py_float g1) (\<lambda>lat.
                    and_then (py_float g2) (\<lambda>lng. Inr (Some (lat, lng))))
                | None \<Rightarrow> Inr None))"

section \<open>MD5\<close>

text \<open>
  \<open>hashlib.md5(b).hexdigest()\<close>, after RFC 1321: the message is padded to a multiple of
  64 bytes, each 64-byte block goes through 64 steps on four 32-bit words, and the four
  words are written out low byte first, two hexadecimal digits a byte.
\<close>

definition md5_K :: "32 word list" where
  "md5_K = [
   0xd76aa478, 0xe8c7b756, 0x242070db, 0xc1bdceee,
   0xf57c0faf, 0x4787c62a, 0xa8304613, 0xfd469501,
   0x698098d8, 0x8b44f7af, 0xffff5bb1, 0x895cd7be,
   0x6b901122, 0xfd987193, 0xa679438e, 0x49b40821,
   0xf61e2562, 0xc040b340, 0x265e5a51, 0xe9b6c7aa,
   0xd62f105d, 0x02441453, 0xd8a1e681, 0xe7d3fbc8,
   0x21e1cde6, 0xc33707d6, 0xf4d50d87, 0x455a14ed,
   0xa9e3e905, 0xfcefa3f8, 0x676f02d9, 0x8d2a4c8a,
   0xfffa3942, 0x8771f681, 0x6d9d6122, 0xfde5380c,
   0xa4beea44, 0x4bdecfa9, 0xf6bb4b60, 0xbebfbc70,
   0x289b7ec6, 0xeaa127fa, 0xd4ef3085, 0x04881d05,
   0xd9d4d039, 0xe6db99e5, 0x1fa27cf8, 0xc4ac5665,
   0xf4292244, 0x432aff97, 0xab9423a7, 0xfc93a039,
   0x655b59c3, 0x8f0ccc92, 0xffeff47d, 0x85845dd1,
   0x6fa87e4f, 0xfe2ce6e0, 0xa3014314, 0x4e0811a1,
   0xf7537e82, 0xbd3af235, 0x2ad7d2bb, 0xeb86d391]"

definition md5_S :: "nat list" where
  "md5_S = concat (map (\<lambda>r. concat (replicate 4 r))
     [[7, 12, 17, 22], [5, 9, 14, 20], [4, 11, 16, 23], [6, 10, 15, 21]])"

definition le_bytes :: "nat \<Rightarrow> nat \<Rightarrow> nat list" where
  "le_bytes k n = map (\<lambda>i. (n div 256 ^ i) mod 256) [0..<k]"

definition md5_pad :: "nat list \<Rightarrow> nat list" where
  "md5_pad msg = msg @ [128] @ replicate ((119 - length msg mod 64) mod 64) 0
                  @ le_bytes 8 ((8 * length msg) mod 2 ^ 64)"

definition le32 :: "nat list \<Rightarrow> 32 word" where
  "le32 bs = word_of_nat (foldr (\<lambda>b acc. b + 256 * acc) bs 0)"

definition md5_words :: "nat list \<Rightarrow> 32 word list" where
  "md5_words chunk = map (\<lambda>j. le32 (take 4 (drop (4 * j) chunk))) [0..<16]"

definition rotl32 :: "nat \<Rightarrow> 32 word \<Rightarrow> 32 word" where
  "rotl32 n w = (push_bit n w) OR (drop_bit (32 - n) w)"

type_synonym md5_state = "32 word \<times> 32 word \<times> 32 word \<times> 32 word"

definition md5_step :: "32 word list \<Rightarrow> nat \<Rightarrow> md5_state \<Rightarrow> md5_state" where
  "md5_step M i st = (case st of (A, B, C, D) \<Rightarrow>
     let (F, g) =
       (if i < 16 then ((B AND C) OR (NOT B AND D), i)
        else if i < 32 then ((D AND B) OR (NOT D AND C), (5 * i + 1) mod 16)
        else if i < 48 then (B XOR C XOR D, (3 * i + 5) mod 16)
        else (C XOR (B OR NOT D), (7 * i) mod 16));
       F' = F + A + md5_K ! i + M ! g
     in (D, B + rotl32 (md5_S ! i) F', B, C))"

definition md5_chunk :: "md5_state \<Rightarrow> nat list \<Rightarrow> md5_state" where
  "md5_chunk st chunk = (case st of (a0, b0, c0, d0) \<Rightarrow>
     case fold (md5_step (md5_words chunk)) [0..<64] st of (A, B, C, D) \<Rightarrow>
       (a0 + A, b0 + B, c0 + C, d0 + D))"

definition md5_digest :: "nat list \<Rightarrow> nat list" where
  "md5_digest msg =
     (let padded = md5_pad msg;
          chunks = map (\<lambda>k. take 64 (drop (64 * k) padded)) [0..<length padded div 64]
      in case fold (\<lambda>c st. md5_chunk st c) chunks
              (0x67452301, 0xefcdab89, 0x98badcfe, 0x10325476) of
           (a, b, c, d) \<Rightarrow> concat (map (\<lambda>w. le_bytes 4 (unat w)) [a, b, c, d]))"

definition hex_digit :: "nat \<Rightarrow> char" where
  "hex_digit n = ''0123456789abcdef'' ! n"

definition hexdigest :: "nat list \<Rightarrow> string" where
  "hexdigest bs = concat (map (\<lambda>b. [hex_digit (b div 16), hex_digit (b mod 16)]) bs)"

definition md5_hexdigest :: "nat list \<Rightarrow> string" where
  "md5_hexdigest msg = hexdigest (md5_digest msg)"

section \<open>Cards and sightings\<close>

text \<open>
  The page engine is a capability, not code of the scraper. An element handle answers
  \<open>inner_text()\<close> and \<open>get_attribute(name)\<close>; a card answers \<open>query_selector(selector)\<close>,
  which is the first matching descendant or \<open>None\<close>, and \<open>get_attribute(name)\<close>. Every
  one of these calls may raise.
\<close>

record element =
  inner_text :: "string result"
  get_attribute :: "string \<Rightarrow> string option result"

record card =
  query_selector :: "string \<Rightarrow> element option result"
  card_get_attribute :: "string \<Rightarrow> string option result"

text \<open>
  A sighting is the \<open>dict\<close> the extractor fills, kept as the list of its items in insertion
  order; assigning to a key that is there replaces its value in place, which is
  \<open>AList.update\<close>. A value is a string, a float or \<open>None\<close>.
\<close>

datatype pyval = PStr string | PFloat pyfloat | PNone

type_synonym sighting = "(string \<times> pyval) list"

definition put :: "string \<Rightarrow> pyval \<Rightarrow> sighting \<Rightarrow> sighting" where
  "put k v s = AList.update k v s"

text \<open>\<open>await elem.inner_text() if elem else default\<close>\<close>

definition text_or :: "element option \<Rightarrow> string \<Rightarrow> string result" where
  "text_or elem dflt = (case elem of Some e \<Rightarrow> inner_text e | None \<Rightarrow> Inr dflt)"

text \<open>The block under \<open># Checklist URL\<close>: the value stored under \<open>checklist_url\<close>.\<close>

definition checklist_url_of :: "card \<Rightarrow> pyval result" where
  "checklist_url_of card' =
     and_then (query_selector card' ''a[href*='checklist']'') (\<lambda>checklist_link.
       case checklist_link of
         Some link \<Rightarrow>
           and_then (get_attribute link ''href'') (\<lambda>href.
             case href of
               None \<Rightarrow> Inr PNone
             | Some h \<Rightarrow>
                 if h \<noteq> [] \<and> \<not> startswith h ''http''
                 then Inr (PStr (''https://ebird.org'' @ h))
                 else Inr (PStr h))
       | None \<Rightarrow> Inr (PStr []))"

text \<open>\<open>float(x) if x else None\<close> on an attribute value.\<close>

definition float_or_none :: "string option \<Rightarrow> pyval result" where
  "float_or_none x =
     (case x of None \<Rightarrow> Inr PNone
      | Some t \<Rightarrow> if t = [] then Inr PNone
                  else and_then (py_float t) (\<lambda>f. Inr (PFloat f)))"

text \<open>The block under \<open># Coordinates\<close>: the values stored under \<open>latitude\<close> and
  \<open>longitude\<close>.\<close>

definition coordinates_of :: "card \<Rightarrow> (pyval \<times> pyval) result" where
  "coordinates_of card' =
     and_then (card_get_attribute card' ''data-lat'') (\<lambda>lat_elem.
     and_then (card_get_attribute card' ''data-lng'') (\<lambda>lng_elem.
     and_then (float_or_none lat_elem) (\<lambda>latitude.
     and_then (float_or_none lng_elem) (\<lambda>longitude.
       if latitude = PNone
       then and_then (query_selector card'
                        ''a[href*='google.com/maps'], a[href*='maps.google']'') (\<lambda>map_link.
              case map_link of
                None \<Rightarrow> Inr (latitude, longitude)
              | Some link \<Rightarrow>
                  and_then (get_attribute link ''href'') (\<lambda>href.
                  and_then (parse_coordinates_from_url href) (\<lambda>coords.
                    case coords of
                      Some (lat, lng) \<Rightarrow> Inr (PFloat lat, PFloat lng)
                    | None \<Rightarrow> Inr (latitude, longitude))))
       else Inr (latitude, longitude)))))"

text \<open>The body of the \<open>try\<close> block of \<open>extract_sighting_data\<close>.\<close>

definition extract_fields :: "card \<Rightarrow> sighting result" where
  "extract_fields card' =
     and_then (query_selector card' ''.Heading-main, .species-name, h3, h4'') (\<lambda>species_elem.
     and_then (text_or species_elem ''Unknown'') (\<lambda>species_common_name.
     and_then (query_selector card' ''em, .scientific-name, .species-scientific'')
       (\<lambda>scientific_elem.
     and_then (text_or scientific_elem []) (\<lambda>species_scientific_name.
     and_then (query_selector card'
                 ''.Observation-location, .location, [class*='location']'') (\<lambda>location_elem.
     and_then (text_or location_elem ''Unknown'') (\<lambda>location.
     and_then (query_selector card' ''.Observation-meta-date, .date, [class*='date']'')
       (\<lambda>date_elem.
     and_then (text_or date_elem []) (\<lambda>date_text.
     and_then (query_selector card' ''.time, [class*='time']'') (\<lambda>time_elem.
     and_then (text_or time_elem []) (\<lambda>time.
     and_then (query_selector card' ''.Observation-meta-user, .observer, [class*='user']'')
       (\<lambda>observer_elem.
     and_then (text_or observer_elem ''Unknown'') (\<lambda>observer.
     and_then (query_selector card' ''.count, [class*='count']'') (\<lambda>count_elem.
     and_then (text_or count_elem ''1'') (\<lambda>count.
     and_then (query_selector card' ''.rare, .notable, .review, [class*='rarity']'')
       (\<lambda>rarity_elem.
     and_then (text_or rarity_elem ''notable'') (\<lambda>rarity_level.
     and_then (checklist_url_of card') (\<lambda>checklist_url.
     and_then (coordinates_of card') (\<lambda>(latitude, longitude).
       let date = strip date_text;
           id_string = species_common_name @ location @ date
       in Inr (put ''id'' (PStr (take 12 (md5_hexdigest (utf8_encode id_string))))
              (put ''longitude'' longitude
              (put ''latitude'' latitude
              (put ''checklist_url'' checklist_url
              (put ''rarity_level'' (PStr (strip (lower rarity_level)))
              (put ''rarity_level'' (PStr rarity_level)
              (put ''count'' (PStr count)
              (put ''observer'' (PStr observer)
              (put ''time'' (PStr time)
              (put ''date'' (PStr date)
              (put ''location'' (PStr location)
              (put ''species_scientific_name'' (PStr species_scientific_name)
              (put ''species_common_name'' (PStr species_common_name)
                [])))))))))))))
     ))))))))))))))))))"

text \<open>\<open>except Exception\<close>: any fault of the body is logged and the card yields \<open>None\<close>.\<close>

definition extract_sighting_data :: "card \<Rightarrow> sighting option" where
  "extract_sighting_data card' =
     (case extract_fields card' of Inl e \<Rightarrow> None | Inr sighting \<Rightarrow> Some sighting)"

section \<open>The validator\<close>

text \<open>Truth value of a Python value: a non-empty string, a float other than zero.\<close>

definition truthy :: "pyval \<Rightarrow> bool" where
  "truthy v = (case v of PStr t \<Rightarrow> t \<noteq> []
     | PFloat f \<Rightarrow> f \<noteq> Finite 0
     | PNone \<Rightarrow> False)"

text \<open>\<open>sighting.get(field)\<close>\<close>

definition dict_get :: "sighting \<Rightarrow> string \<Rightarrow> pyval" where
  "dict_get s k = (case map_of s k of Some v \<Rightarrow> v | None \<Rightarrow> PNone)"

definition required :: "string list" where
  "required = [''species_common_name'', ''location'', ''date'']"

definition validate_sighting :: "sighting option \<Rightarrow> bool" where
  "validate_sighting sighting =
     (case sighting of None \<Rightarrow> False
      | Some s \<Rightarrow>
          if s = [] then False
          else list_all (\<lambda>field. truthy (dict_get s field)
                                  \<and> dict_get s field \<noteq> PStr ''Unknown'') required)"

section \<open>Logging in\<close>

text \<open>
  What the login page does when \<open>login\<close> works through it: every call may raise, and a
  \<open>query_selector\<close> finds its element or not.
\<close>

record login_form =
  wait_for_form :: "unit result"
  find_username_input :: "bool result"
  find_password_input :: "bool result"
  fill_username :: "unit result"
  fill_password :: "unit result"
  find_submit_button :: "bool result"
  click_submit :: "unit result"
  wait_after_submit :: "unit result"

definition login :: "login_form \<Rightarrow> bool" where
  "login form =
     (case
        and_then (wait_for_form form) (\<lambda>_.
        and_then (find_username_input form) (\<lambda>username_input.
        and_then (find_password_input form) (\<lambda>password_input.
          if username_input \<and> password_input
          then and_then (fill_username form) (\<lambda>_.
               and_then (fill_password form) (\<lambda>_.
               and_then (find_submit_button form) (\<lambda>submit_button.
                 if submit_button
                 then and_then (click_submit form) (\<lambda>_.
                      and_then (wait_after_submit form) (\<lambda>_. Inr True))
                 else Inr False)))
          else Inr False)))
      of Inl e \<Rightarrow> False | Inr ok \<Rightarrow> ok)"

section \<open>The alert scraper\<close>

text \<open>
  What the page does during one attempt of \<open>scrape_alerts\<close>, call by call: the two
  navigations, the address the first one ends on, the login page, the two waits, the
  screenshot and the cards found.
\<close>

record attempt =
  goto :: "unit result"
  url :: string
  login_page :: login_form
  goto_after_login :: "unit result"
  wait_networkidle :: "unit result"
  wait_for_observations :: "unit result"
  screenshot :: "unit result"
  query_selector_all :: "card list result"

text \<open>The loop over the cards: a sighting is appended when it is there and valid.\<close>

fun collect :: "card list \<Rightarrow> sighting list" where
  "collect [] = []"
| "collect (c # cards) =
     (case extract_sighting_data c of
        None \<Rightarrow> collect cards
      | Some sighting \<Rightarrow>
          if sighting \<noteq> [] \<and> validate_sighting (Some sighting)
          then sighting # collect cards
          else collect cards)"

text \<open>The body of the \<open>try\<close> block of one attempt. The inner \<open>except\<close> catches whatever
  the wait for the observation markers raises; the screenshot is taken inside that
  handler, so a fault of the screenshot leaves the handler as a fault of the attempt.\<close>

definition attempt_body :: "attempt \<Rightarrow> sighting list result" where
  "attempt_body a =
     and_then (goto a) (\<lambda>_.
     and_then (if contains ''login'' (lower (url a)) \<or> contains ''signin'' (lower (url a))
               then (if \<not> login (login_page a) then Inl (Fault ''Login failed'')
                     else goto_after_login a)
               else Inr ()) (\<lambda>_.
     and_then (wait_networkidle a) (\<lambda>_.
       case wait_for_observations a of
         Inl e \<Rightarrow> and_then (screenshot a) (\<lambda>_. Inr [])
       | Inr _ \<Rightarrow> and_then (query_selector_all a) (\<lambda>observation_cards.
                    Inr (collect observation_cards)))))"

text \<open>
  What a run does besides computing: \<open>Attempt n\<close> is the start of attempt \<open>n\<close> (the
  navigation to the alert page), \<open>Sleep d\<close> is \<open>asyncio.sleep(d)\<close>, \<open>Launch\<close> and
  \<open>Close\<close> are the start and the release of the browser session.
\<close>

datatype event = Attempt nat | Sleep nat | Launch | Close

text \<open>\<open>for attempt in range(max_retries)\<close>; the page is given by what it does in each
  attempt. After the loop the function returns the empty list.\<close>

fun scrape_loop ::
    "(nat \<Rightarrow> attempt) \<Rightarrow> nat \<Rightarrow> nat list \<Rightarrow> event list \<times> sighting list result" where
  "scrape_loop page' max_retries [] = ([], Inr [])"
| "scrape_loop page' max_retries (n # rest) =
     (case attempt_body (page' n) of
        Inr found \<Rightarrow> ([Attempt n], Inr found)
      | Inl e \<Rightarrow>
          if n = max_retries - 1 then ([Attempt n], Inl e)
          else (case scrape_loop page' max_retries rest of
                  (evs, r) \<Rightarrow> (Attempt n # Sleep 5 # evs, r)))"

definition scrape_alerts ::
    "(nat \<Rightarrow> attempt) \<Rightarrow> nat \<Rightarrow> event list \<times> sighting list result" where
  "scrape_alerts page' max_retries = scrape_loop page' max_retries [0..<max_retries]"

section \<open>The output\<close>

record metadata =
  location_code :: string
  location_name :: string
  last_updated :: string
  scrape_status :: string
  total_sightings :: nat
  error_message :: "string option"

record envelope =
  metadata :: metadata
  sightings :: "sighting list"

text \<open>\<open>create_output_json\<close>; the reading of the clock is its first argument.\<close>

definition create_output_json ::
    "string \<Rightarrow> sighting list \<Rightarrow> string \<Rightarrow> string option \<Rightarrow> envelope" where
  "create_output_json timestamp found status message =
     \<lparr>metadata = \<lparr>location_code = ''SN35466'',
                   location_name = ''eBird Alert Location'',
                   last_updated = timestamp,
                   scrape_status = status,
                   total_sightings = length found,
                   error_message = message\<rparr>,
      sightings = found\<rparr>"

text \<open>
  The surroundings of a run: the two environment variables, the start of the browser
  session (\<open>async_playwright\<close>, \<open>launch\<close>, \<open>new_context\<close>, \<open>new_page\<close>), the page, the clock
  at its successive readings, the successive writes of the output file (\<open>makedirs\<close>,
  \<open>open\<close>, \<open>json.dump\<close>) and the release of the session.
\<close>

record world =
  ebird_username :: "string option"
  ebird_password :: "string option"
  start_browser :: "unit result"
  page :: "nat \<Rightarrow> attempt"
  now :: "nat \<Rightarrow> string"
  write_output :: "nat \<Rightarrow> unit result"
  close_browser :: "unit result"

text \<open>
  What a run leaves: its events, the envelopes it built in order, the envelope in the
  output file (\<open>None\<close> when the run wrote none) and the fault that left \<open>main\<close>, if any.
\<close>

record outcome =
  events :: "event list"
  built :: "envelope list"
  output_file :: "envelope option"
  escaped :: "fault option"

definition env_set :: "string option \<Rightarrow> bool" where
  "env_set v = (case v of None \<Rightarrow> False | Some t \<Rightarrow> t \<noteq> [])"

text \<open>The \<open>except\<close> block of \<open>main\<close>: the \<open>k\<close>-th envelope and write of the run.\<close>

definition write_error_state ::
    "world \<Rightarrow> nat \<Rightarrow> fault \<Rightarrow> envelope list \<times> envelope option \<times> fault option" where
  "write_error_state w k e =
     (let error_output = create_output_json (now w k) [] ''error'' (Some (description e))
      in case write_output w k of
           Inr _ \<Rightarrow> ([error_output], Some error_output, None)
         | Inl e' \<Rightarrow> ([error_output], None, Some e'))"

definition main :: "world \<Rightarrow> outcome" where
  "main w =
     (if \<not> env_set (ebird_username w) \<or> \<not> env_set (ebird_password w)
      then \<lparr>events = [], built = [], output_file = None, escaped = None\<rparr>
      else case start_browser w of
        Inl e \<Rightarrow> \<lparr>events = [Launch], built = [], output_file = None, escaped = Some e\<rparr>
      | Inr _ \<Rightarrow>
          (case scrape_alerts (page w) 3 of (evs, r) \<Rightarrow>
             (case (case r of
                      Inr found \<Rightarrow>
                        (let output =
                               (if found \<noteq> []
                                then create_output_json (now w 0) found ''success'' None
                                else create_output_json (now w 0) [] ''warning''
                                       (Some ''No sightings found''))
                         in case write_output w 0 of
                              Inr _ \<Rightarrow> ([output], Some output, None)
                            | Inl e \<Rightarrow>
                                (case write_error_state w 1 e of
                                   (b, f, x) \<Rightarrow> (output # b, f, x)))
                    | Inl e \<Rightarrow> write_error_state w 0 e)
              of (b, f, x) \<Rightarrow>
                \<lparr>events = Launch # evs @ [Close], built = b, output_file = f,
                 escaped = (case close_browser w of Inl e \<Rightarrow> Some e | Inr _ \<Rightarrow> x)\<rparr>)))"

section \<open>Example cards, pages and runs\<close>

abbreviation species_selector :: string where
  "species_selector \<equiv> ''.Heading-main, .species-name, h3, h4''"

abbreviation scientific_selector :: string where
  "scientific_selector \<equiv> ''em, .scientific-name, .species-scientific''"

abbreviation location_selector :: string where
  "location_selector \<equiv> ''.Observation-location, .location, [class*='location']''"

abbreviation date_selector :: string where
  "date_selector \<equiv> ''.Observation-meta-date, .date, [class*='date']''"

abbreviation time_selector :: string where
  "time_selector \<equiv> ''.time, [class*='time']''"

abbreviation observer_selector :: string where
  "observer_selector \<equiv> ''.Observation-meta-user, .observer, [class*='user']''"

abbreviation count_selector :: string where
  "count_selector \<equiv> ''.count, [class*='count']''"

abbreviation rarity_selector :: string where
  "rarity_selector \<equiv> ''.rare, .notable, .review, [class*='rarity']''"

abbreviation checklist_selector :: string where
  "checklist_selector \<equiv> ''a[href*='checklist']''"

abbreviation map_selector :: string where
  "map_selector \<equiv> ''a[href*='google.com/maps'], a[href*='maps.google']''"

definition text_element :: "string \<Rightarrow> element" where
  "text_element t = \<lparr>inner_text = Inr t, get_attribute = (\<lambda>name. Inr None)\<rparr>"

definition link_element :: "string \<Rightarrow> element" where
  "link_element h =
     \<lparr>inner_text = Inr [],
      get_attribute = (\<lambda>name. if name = ''href'' then Inr (Some h) else Inr None)\<rparr>"

text \<open>A card with padded texts, a latitude attribute without a longitude attribute, and
  a map link whose query would raise.\<close>

definition robin_card :: card where
  "robin_card =
     \<lparr>query_selector = (\<lambda>sel.
        if sel = species_selector then Inr (Some (text_element '' Robin ''))
        else if sel = location_selector then Inr (Some (text_element ''Central Park''))
        else if sel = date_selector then Inr (Some (text_element '' 2024-01-01 ''))
        else if sel = rarity_selector then Inr (Some (text_element ''RARE ''))
        else if sel = map_selector then Inl (Fault ''Target closed'')
        else Inr None),
      card_get_attribute = (\<lambda>name.
        if name = ''data-lat'' then Inr (Some ''12.5'') else Inr None)\<rparr>"

definition robin_sighting :: sighting where
  "robin_sighting =
     [(''species_common_name'', PStr '' Robin ''),
      (''species_scientific_name'', PStr []),
      (''location'', PStr ''Central Park''),
      (''date'', PStr ''2024-01-01''),
      (''time'', PStr []),
      (''observer'', PStr ''Unknown''),
      (''count'', PStr ''1''),
      (''rarity_level'', PStr ''rare''),
      (''checklist_url'', PStr []),
      (''latitude'', PFloat (Finite 12.5)),
      (''longitude'', PNone),
      (''id'', PStr (take 12 (md5_hexdigest (utf8_encode '' Robin Central Park2024-01-01''))))]"

text \<open>The same sighting seen on another card: other observer, no coordinates.\<close>

definition robin_again :: card where
  "robin_again =
     \<lparr>query_selector = (\<lambda>sel.
        if sel = species_selector then Inr (Some (text_element '' Robin ''))
        else if sel = location_selector then Inr (Some (text_element ''Central Park''))
        else if sel = date_selector then Inr (Some (text_element ''2024-01-01''))
        else if sel = observer_selector then Inr (Some (text_element ''Ana''))
        else Inr None),
      card_get_attribute = (\<lambda>name. Inr None)\<rparr>"

definition robin_again_sighting :: sighting where
  "robin_again_sighting =
     [(''species_common_name'', PStr '' Robin ''),
      (''species_scientific_name'', PStr []),
      (''location'', PStr ''Central Park''),
      (''date'', PStr ''2024-01-01''),
      (''time'', PStr []),
      (''observer'', PStr ''Ana''),
      (''count'', PStr ''1''),
      (''rarity_level'', PStr ''notable''),
      (''checklist_url'', PStr []),
      (''latitude'', PNone),
      (''longitude'', PNone),
      (''id'', PStr (take 12 (md5_hexdigest (utf8_encode '' Robin Central Park2024-01-01''))))]"

text \<open>A card with a checklist link and a map link, and no coordinate attributes.\<close>

definition owl_card :: card where
  "owl_card =
     \<lparr>query_selector = (\<lambda>sel.
        if sel = species_selector then Inr (Some (text_element ''Snowy Owl''))
        else if sel = location_selector then Inr (Some (text_element ''Pier 1''))
        else if sel = date_selector then Inr (Some (text_element ''2024-01-02''))
        else if sel = checklist_selector then Inr (Some (link_element ''/checklist/S123''))
        else if sel = map_selector
          then Inr (Some (link_element ''https://www.google.com/maps/@37.123,-122.456,15z''))
        else Inr None),
      card_get_attribute = (\<lambda>name. Inr None)\<rparr>"

definition owl_sighting :: sighting where
  "owl_sighting =
     [(''species_common_name'', PStr ''Snowy Owl''),
      (''species_scientific_name'', PStr []),
      (''location'', PStr ''Pier 1''),
      (''date'', PStr ''2024-01-02''),
      (''time'', PStr []),
      (''observer'', PStr ''Unknown''),
      (''count'', PStr ''1''),
      (''rarity_level'', PStr ''notable''),
      (''checklist_url'', PStr ''https://ebird.org/checklist/S123''),
      (''latitude'', PFloat (Finite 37.123)),
      (''longitude'', PFloat (Finite (- 122.456))),
      (''id'', PStr (take 12 (md5_hexdigest (utf8_encode ''Snowy OwlPier 12024-01-02''))))]"

text \<open>A card without a location, and a card on which no selector matches.\<close>

definition wren_card :: card where
  "wren_card =
     \<lparr>query_selector = (\<lambda>sel.
        if sel = species_selector then Inr (Some (text_element ''Wren''))
        else if sel = date_selector then Inr (Some (text_element ''2024-01-03''))
        else Inr None),
      card_get_attribute = (\<lambda>name. Inr None)\<rparr>"

definition wren_sighting :: sighting where
  "wren_sighting =
     [(''species_common_name'', PStr ''Wren''),
      (''species_scientific_name'', PStr []),
      (''location'', PStr ''Unknown''),
      (''date'', PStr ''2024-01-03''),
      (''time'', PStr []),
      (''observer'', PStr ''Unknown''),
      (''count'', PStr ''1''),
      (''rarity_level'', PStr ''notable''),
      (''checklist_url'', PStr []),
      (''latitude'', PNone),
      (''longitude'', PNone),
      (''id'', PStr (take 12 (md5_hexdigest (utf8_encode ''WrenUnknown2024-01-03''))))]"



text \<open>A login form on which every step works, and what the page may do in an attempt:
  list cards, show no observation markers, fail to take the screenshot as well, be out
  of reach, or hide behind a login page whose form has no submit button.\<close>

definition working_form :: login_form where
  "working_form =
     \<lparr>wait_for_form = Inr (), find_username_input = Inr True, find_password_input = Inr True,
      fill_username = Inr (), fill_password = Inr (), find_submit_button = Inr True,
      click_submit = Inr (), wait_after_submit = Inr ()\<rparr>"

definition listing :: "card list \<Rightarrow> attempt" where
  "listing cards =
     \<lparr>goto = Inr (), url = ''https://ebird.org/alert/summary?sid=SN35466'',
      login_page = working_form, goto_after_login = Inr (), wait_networkidle = Inr (),
      wait_for_observations = Inr (), screenshot = Inr (), query_selector_all = Inr cards\<rparr>"

definition no_markers :: attempt where
  "no_markers = (listing [])\<lparr>wait_for_observations := Inl (Fault ''Timeout 15000ms exceeded'')\<rparr>"

definition no_markers_no_screenshot :: attempt where
  "no_markers_no_screenshot = no_markers\<lparr>screenshot := Inl (Fault ''Timeout 30000ms exceeded'')\<rparr>"

definition out_of_reach :: attempt where
  "out_of_reach = (listing [])\<lparr>goto := Inl (Fault ''net::ERR_CONNECTION_REFUSED'')\<rparr>"

definition login_wall :: attempt where
  "login_wall =
     (listing [])\<lparr>url := ''https://secure.birds.cornell.edu/cassso/login?service=ebird'',
                  login_page := working_form\<lparr>find_submit_button := Inr False\<rparr>\<rparr>"

definition calm_world :: world where
  "calm_world =
     \<lparr>ebird_username = Some ''birder'', ebird_password = Some ''secret'',
      start_browser = Inr (),
      page = (\<lambda>n. listing [robin_card, wren_card, owl_card]),
      now = (\<lambda>k. ''2024-01-04T06:00:00+00:00''),
      write_output = (\<lambda>k. Inr ()),
      close_browser = Inr ()\<rparr>"

definition empty_world :: world where
  "empty_world = calm_world\<lparr>page := (\<lambda>n. no_markers)\<rparr>"

definition down_world :: world where
  "down_world = calm_world\<lparr>page := (\<lambda>n. if n = 2 then login_wall else out_of_reach)\<rparr>"

definition no_secret_world :: world where
  "no_secret_world = calm_world\<lparr>ebird_password := Some []\<rparr>"

definition no_browser_world :: world where
  "no_browser_world = calm_world\<lparr>start_browser := Inl (Fault ''Executable does not exist'')\<rparr>"

definition flaky_page :: "nat \<Rightarrow> attempt" where
  "flaky_page n = (if n = 0 then no_markers_no_screenshot else no_markers)"

section \<open>Notions the statements use\<close>

text \<open>
  How a text field of a record relates to the card. \<open>takes_text rel c s key selector dflt\<close>:
  when the selector matches nothing, the record holds the default under the key; when it
  matches, the record holds a string \<open>v\<close> that stands in relation \<open>rel\<close> to the text content
  \<open>t\<close> of the first match. The three relations: \<open>v\<close> is \<open>t\<close> trimmed; \<open>v\<close> is \<open>t\<close> in lower
  case, trimmed; \<open>v\<close> and \<open>t\<close> are the same up to surrounding whitespace.
\<close>

definition trimmed :: "string \<Rightarrow> string \<Rightarrow> bool" where
  "trimmed v t = (v = strip t)"

definition lowered_and_trimmed :: "string \<Rightarrow> string \<Rightarrow> bool" where
  "lowered_and_trimmed v t = (v = strip (lower t))"

definition same_inside :: "string \<Rightarrow> string \<Rightarrow> bool" where
  "same_inside v t = (strip v = strip t)"

definition takes_text ::
    "(string \<Rightarrow> string \<Rightarrow> bool) \<Rightarrow> card \<Rightarrow> sighting \<Rightarrow> string \<Rightarrow> string \<Rightarrow> string \<Rightarrow> bool" where
  "takes_text rel c s key selector dflt =
     (case query_selector c selector of
        Inl e \<Rightarrow> False
      | Inr None \<Rightarrow> map_of s key = Some (PStr dflt)
      | Inr (Some elem) \<Rightarrow>
          (case inner_text elem of
             Inl e \<Rightarrow> False
           | Inr t \<Rightarrow> (case map_of s key of Some (PStr v) \<Rightarrow> rel v t | _ \<Rightarrow> False)))"

text \<open>An attribute that is there and not empty.\<close>

definition present :: "string option result \<Rightarrow> bool" where
  "present x = (case x of Inr (Some t) \<Rightarrow> t \<noteq> [] | _ \<Rightarrow> False)"

definition absent :: "string option result \<Rightarrow> bool" where
  "absent x = (x = Inr None \<or> x = Inr (Some []))"

text \<open>What the map link of a card yields: the parsed pair, if the link is there and its
  address matches.\<close>

definition map_link_coordinates :: "card \<Rightarrow> (pyfloat \<times> pyfloat) option result" where
  "map_link_coordinates c =
     (case query_selector c map_selector of
        Inl e \<Rightarrow> Inl e
      | Inr None \<Rightarrow> Inr None
      | Inr (Some link) \<Rightarrow>
          (case get_attribute link ''href'' of
             Inl e \<Rightarrow> Inl e
           | Inr href \<Rightarrow> parse_coordinates_from_url href))"






text \<open>A run in which the observation markers never show and the screenshot faults each
  time, a run with a working page and a failing first write, and the envelopes these
  runs and the calm ones build.\<close>

definition snapshot_world :: world where
  "snapshot_world = calm_world\<lparr>page := (\<lambda>n. no_markers_no_screenshot)\<rparr>"

definition calm_envelope :: envelope where
  "calm_envelope =
     \<lparr>metadata = \<lparr>location_code = ''SN35466'', location_name = ''eBird Alert Location'',
                   last_updated = ''2024-01-04T06:00:00+00:00'', scrape_status = ''success'',
                   total_sightings = 2, error_message = None\<rparr>,
      sightings = [robin_sighting, owl_sighting]\<rparr>"

definition empty_envelope :: envelope where
  "empty_envelope =
     \<lparr>metadata = \<lparr>location_code = ''SN35466'', location_name = ''eBird Alert Location'',
                   last_updated = ''2024-01-04T06:00:00+00:00'', scrape_status = ''warning'',
                   total_sightings = 0, error_message = Some ''No sightings found''\<rparr>,
      sightings = []\<rparr>"

definition error_envelope :: "string \<Rightarrow> envelope" where
  "error_envelope message =
     \<lparr>metadata = \<lparr>location_code = ''SN35466'', location_name = ''eBird Alert Location'',
                   last_updated = ''2024-01-04T06:00:00+00:00'', scrape_status = ''error'',
                   total_sightings = 0, error_message = Some message\<rparr>,
      sightings = []\<rparr>"

text \<open>A card is readable when the queries for its eight text fields and the reads of
  their text contents answer without a fault, and so does the block of the checklist link.\<close>

definition text_answers :: "card \<Rightarrow> string \<Rightarrow> bool" where
  "text_answers c selector =
     (case query_selector c selector of
        Inl e \<Rightarrow> False
      | Inr None \<Rightarrow> True
      | Inr (Some elem) \<Rightarrow> (case inner_text elem of Inl e \<Rightarrow> False | Inr t \<Rightarrow> True))"

definition readable :: "card \<Rightarrow> bool" where
  "readable c =
     (text_answers c species_selector \<and> text_answers c scientific_selector \<and>
      text_answers c location_selector \<and> text_answers c date_selector \<and>
      text_answers c time_selector \<and> text_answers c observer_selector \<and>
      text_answers c count_selector \<and> text_answers c rarity_selector \<and>
      (case checklist_url_of c of Inl e \<Rightarrow> False | Inr v \<Rightarrow> True))"

section \<open>Evaluating the examples\<close>

lemmas float_eval =
  py_float_def float_space_def code_point_def take_sign_def lower_def lower_char_def
  floatnumber_def digitpart_def is_digit_def digit_val_def exponent_def scale_def
  number_of_digits_def Let_def

lemmas extract_eval =
  extract_sighting_data_def extract_fields_def and_then_def text_or_def text_element_def
  link_element_def checklist_url_of_def coordinates_of_def float_or_none_def put_def Let_def

lemma strip_padded_date: "strip '' 2024-01-01 '' = ''2024-01-01''"
  by code_simp

lemma strip_plain_dates:
  "strip ''2024-01-01'' = ''2024-01-01''"
  "strip ''2024-01-02'' = ''2024-01-02''"
  "strip ''2024-01-03'' = ''2024-01-03''"
  "strip [] = []"
  by code_simp+

lemma strip_lower_rarity:
  "strip (lower ''RARE '') = ''rare''"
  "strip (lower ''notable'') = ''notable''"
  by code_simp+

lemma strip_padded_name: "strip '' Robin '' = ''Robin''"
  by code_simp

lemma strip_rarity_text: "strip ''RARE '' = ''RARE''"
  by code_simp

lemma float_of_latitude: "py_float ''12.5'' = Inr (Finite 12.5)"
  by (simp add: float_eval)

lemma search_map_link:
  "re_search ''https://www.google.com/maps/@37.123,-122.456,15z'' = Some (''37.123'', ''-122.456'')"
  by code_simp

lemma parse_map_link:
  "parse_coordinates_from_url (Some ''https://www.google.com/maps/@37.123,-122.456,15z'')
     = Inr (Some (Finite 37.123, Finite (- 122.456)))"
  by (simp add: parse_coordinates_from_url_def search_map_link and_then_def float_eval
           del: re_search.simps)

lemma robin_extract: "extract_sighting_data robin_card = Some robin_sighting"
  by (simp add: extract_eval robin_card_def robin_sighting_def float_of_latitude
        strip_padded_date strip_lower_rarity)

lemma robin_again_extract: "extract_sighting_data robin_again = Some robin_again_sighting"
  by (simp add: extract_eval robin_again_def robin_again_sighting_def
        strip_plain_dates strip_lower_rarity)

lemma owl_extract: "extract_sighting_data owl_card = Some owl_sighting"
  by (simp add: extract_eval owl_card_def owl_sighting_def parse_map_link
        strip_plain_dates strip_lower_rarity)

lemma wren_extract: "extract_sighting_data wren_card = Some wren_sighting"
  by (simp add: extract_eval wren_card_def wren_sighting_def
        strip_plain_dates strip_lower_rarity)


section \<open>Evaluating MD5\<close>

text \<open>The digests of the empty message and of \<open>abc\<close> from the test suite of RFC 1321,
  and the digest behind the identifier of the first example card.\<close>

lemma replicate_numeral_step: "replicate (numeral k) x = x # replicate (pred_numeral k) x"
  by (simp add: numeral_eq_Suc)

lemma md5_S_list:
  "md5_S = [7, 12, 17, 22, 7, 12, 17, 22, 7, 12, 17, 22, 7, 12, 17, 22,
            5, 9, 14, 20, 5, 9, 14, 20, 5, 9, 14, 20, 5, 9, 14, 20,
            4, 11, 16, 23, 4, 11, 16, 23, 4, 11, 16, 23, 4, 11, 16, 23,
            6, 10, 15, 21, 6, 10, 15, 21, 6, 10, 15, 21, 6, 10, 15, 21]"
  by (simp add: md5_S_def replicate_numeral_step)

text \<open>One step with the new word reduced to its 32 bits, for evaluation.\<close>

lemma md5_step_eval:
  "md5_step M i (A, B, C, D) =
     (D, word_of_nat (unat (B + rotl32 (md5_S ! i)
        ((if i < 16 then (B AND C) OR (NOT B AND D)
          else if i < 32 then (D AND B) OR (NOT D AND C)
          else if i < 48 then B XOR C XOR D
          else C XOR (B OR NOT D)) + A + md5_K ! i
         + M ! (if i < 16 then i else if i < 32 then (5 * i + 1) mod 16
                else if i < 48 then (3 * i + 5) mod 16 else (7 * i) mod 16)))), B, C)"
  by (simp add: md5_step_def Let_def)

lemma empty_bytes:
  "utf8_encode '''' =
     []"
  by (simp add: utf8_encode_def code_point_def)

lemma empty_pad:
  "md5_pad
     [] =
     [128, 0, 0, 0, 0, 0, 0, 0, 0, 0, 0, 0, 0, 0, 0, 0, 0, 0, 0, 0, 0, 0, 0, 0, 0, 0,
     0, 0, 0, 0, 0, 0, 0, 0, 0, 0, 0, 0, 0, 0, 0, 0, 0, 0, 0, 0, 0, 0, 0, 0, 0, 0, 0,
     0, 0, 0, 0, 0, 0, 0, 0, 0, 0, 0]"
  by (simp add: md5_pad_def le_bytes_def upt_rec replicate_numeral_step)

lemma empty_words:
  "md5_words
     [128, 0, 0, 0, 0, 0, 0, 0, 0, 0, 0, 0, 0, 0, 0, 0, 0, 0, 0, 0, 0, 0, 0, 0, 0, 0,
     0, 0, 0, 0, 0, 0, 0, 0, 0, 0, 0, 0, 0, 0, 0, 0, 0, 0, 0, 0, 0, 0, 0, 0, 0, 0, 0,
     0, 0, 0, 0, 0, 0, 0, 0, 0, 0, 0] =
     [128, 0, 0, 0, 0, 0, 0, 0, 0, 0, 0, 0, 0, 0, 0, 0]"
  by (simp add: md5_words_def le32_def upt_rec)

lemma empty_steps:
  "fold (md5_step
     [128, 0, 0, 0, 0, 0, 0, 0, 0, 0, 0, 0, 0, 0, 0, 0])
     [0..<64] (1732584193, 4023233417, 2562383102, 271733878) =
     (1917254355, 350508294, 4283343851, 1846584438)"
  by (simp add: md5_step_eval md5_K_def md5_S_list rotl32_def upt_rec)

lemma empty_chunk:
  "md5_chunk (1732584193, 4023233417, 2562383102, 271733878)
     [128, 0, 0, 0, 0, 0, 0, 0, 0, 0, 0, 0, 0, 0, 0, 0, 0, 0, 0, 0, 0, 0, 0, 0, 0, 0,
     0, 0, 0, 0, 0, 0, 0, 0, 0, 0, 0, 0, 0, 0, 0, 0, 0, 0, 0, 0, 0, 0, 0, 0, 0, 0, 0,
     0, 0, 0, 0, 0, 0, 0, 0, 0, 0, 0] =
     (3649838548, 78774415, 2550759657, 2118318316)"
  by (simp add: md5_chunk_def empty_words empty_steps)

lemma empty_md5:
  "md5_hexdigest (utf8_encode '''') = ''d41d8cd98f00b204e9800998ecf8427e''"
  by (simp add: md5_hexdigest_def md5_digest_def empty_bytes empty_pad empty_chunk hexdigest_def
        hex_digit_def le_bytes_def upt_rec)

lemma abc_bytes:
  "utf8_encode ''abc'' =
     [97, 98, 99]"
  by (simp add: utf8_encode_def code_point_def)

lemma abc_pad:
  "md5_pad
     [97, 98, 99] =
     [97, 98, 99, 128, 0, 0, 0, 0, 0, 0, 0, 0, 0, 0, 0, 0, 0, 0, 0, 0, 0, 0, 0, 0, 0,
     0, 0, 0, 0, 0, 0, 0, 0, 0, 0, 0, 0, 0, 0, 0, 0, 0, 0, 0, 0, 0, 0, 0, 0, 0, 0, 0,
     0, 0, 0, 0, 24, 0, 0, 0, 0, 0, 0, 0]"
  by (simp add: md5_pad_def le_bytes_def upt_rec replicate_numeral_step)

lemma abc_words:
  "md5_words
     [97, 98, 99, 128, 0, 0, 0, 0, 0, 0, 0, 0, 0, 0, 0, 0, 0, 0, 0, 0, 0, 0, 0, 0, 0,
     0, 0, 0, 0, 0, 0, 0, 0, 0, 0, 0, 0, 0, 0, 0, 0, 0, 0, 0, 0, 0, 0, 0, 0, 0, 0, 0,
     0, 0, 0, 0, 24, 0, 0, 0, 0, 0, 0, 0] =
     [2153996897, 0, 0, 0, 0, 0, 0, 0, 0, 0, 0, 0, 0, 0, 24, 0]"
  by (simp add: md5_words_def le32_def upt_rec)

lemma abc_steps:
  "fold (md5_step
     [2153996897, 0, 0, 0, 0, 0, 0, 0, 0, 0, 0, 0, 0, 0, 24, 0])
     [0..<64] (1732584193, 4023233417, 2562383102, 271733878) =
     (822795919, 3229755059, 3833903576, 1649249458)"
  by (simp add: md5_step_eval md5_K_def md5_S_list rotl32_def upt_rec)

lemma abc_chunk:
  "md5_chunk (1732584193, 4023233417, 2562383102, 271733878)
     [97, 98, 99, 128, 0, 0, 0, 0, 0, 0, 0, 0, 0, 0, 0, 0, 0, 0, 0, 0, 0, 0, 0, 0, 0,
     0, 0, 0, 0, 0, 0, 0, 0, 0, 0, 0, 0, 0, 0, 0, 0, 0, 0, 0, 0, 0, 0, 0, 0, 0, 0, 0,
     0, 0, 0, 0, 24, 0, 0, 0, 0, 0, 0, 0] =
     (2555380112, 2958021180, 2101319382, 1920983336)"
  by (simp add: md5_chunk_def abc_words abc_steps)

lemma abc_md5:
  "md5_hexdigest (utf8_encode ''abc'') = ''900150983cd24fb0d6963f7d28e17f72''"
  by (simp add: md5_hexdigest_def md5_digest_def abc_bytes abc_pad abc_chunk hexdigest_def
        hex_digit_def le_bytes_def upt_rec)

lemma robin_bytes:
  "utf8_encode '' Robin Central Park2024-01-01'' =
     [32, 82, 111, 98, 105, 110, 32, 67, 101, 110, 116, 114, 97, 108, 32, 80, 97, 114,
     107, 50, 48, 50, 52, 45, 48, 49, 45, 48, 49]"
  by (simp add: utf8_encode_def code_point_def)

lemma robin_pad:
  "md5_pad
     [32, 82, 111, 98, 105, 110, 32, 67, 101, 110, 116, 114, 97, 108, 32, 80, 97, 114,
     107, 50, 48, 50, 52, 45, 48, 49, 45, 48, 49] =
     [32, 82, 111, 98, 105, 110, 32, 67, 101, 110, 116, 114, 97, 108, 32, 80, 97, 114,
     107, 50, 48, 50, 52, 45, 48, 49, 45, 48, 49, 128, 0, 0, 0, 0, 0, 0, 0, 0, 0, 0, 0,
     0, 0, 0, 0, 0, 0, 0, 0, 0, 0, 0, 0, 0, 0, 0, 232, 0, 0, 0, 0, 0, 0, 0]"
  by (simp add: md5_pad_def le_bytes_def upt_rec replicate_numeral_step)

lemma robin_words:
  "md5_words
     [32, 82, 111, 98, 105, 110, 32, 67, 101, 110, 116, 114, 97, 108, 32, 80, 97, 114,
     107, 50, 48, 50, 52, 45, 48, 49, 45, 48, 49, 128, 0, 0, 0, 0, 0, 0, 0, 0, 0, 0, 0,
     0, 0, 0, 0, 0, 0, 0, 0, 0, 0, 0, 0, 0, 0, 0, 232, 0, 0, 0, 0, 0, 0, 0] =
     [1651462688, 1126198889, 1920233061, 1344302177, 845902433, 758395440, 808268080,
     32817, 0, 0, 0, 0, 0, 0, 232, 0]"
  by (simp add: md5_words_def le32_def upt_rec)

lemma robin_steps:
  "fold (md5_step
     [1651462688, 1126198889, 1920233061, 1344302177, 845902433, 758395440, 808268080,
     32817, 0, 0, 0, 0, 0, 0, 232, 0])
     [0..<64] (1732584193, 4023233417, 2562383102, 271733878) =
     (2285717722, 52743995, 2847623677, 640246013)"
  by (simp add: md5_step_eval md5_K_def md5_S_list rotl32_def upt_rec)

lemma robin_chunk:
  "md5_chunk (1732584193, 4023233417, 2562383102, 271733878)
     [32, 82, 111, 98, 105, 110, 32, 67, 101, 110, 116, 114, 97, 108, 32, 80, 97, 114,
     107, 50, 48, 50, 52, 45, 48, 49, 45, 48, 49, 128, 0, 0, 0, 0, 0, 0, 0, 0, 0, 0, 0,
     0, 0, 0, 0, 0, 0, 0, 0, 0, 0, 0, 0, 0, 0, 0, 232, 0, 0, 0, 0, 0, 0, 0] =
     (4018301915, 4075977412, 1115039483, 911979891)"
  by (simp add: md5_chunk_def robin_words robin_steps)

lemma robin_md5:
  "md5_hexdigest (utf8_encode '' Robin Central Park2024-01-01'') = ''db6b82efc47af2f2fb26764273b55b36''"
  by (simp add: md5_hexdigest_def md5_digest_def robin_bytes robin_pad robin_chunk hexdigest_def
        hex_digit_def le_bytes_def upt_rec)


section \<open>The extractor\<close>

lemma and_then_Inr_iff: "and_then m f = Inr y \<longleftrightarrow> (\<exists>x. m = Inr x \<and> f x = Inr y)"
  by (cases m) (simp_all add: and_then_def)

lemma extract_Some_iff: "extract_sighting_data c = Some s \<longleftrightarrow> extract_fields c = Inr s"
  by (simp add: extract_sighting_data_def split: sum.splits)

text \<open>Every record the body returns has the same twelve keys in the same order, and each
  value is what the corresponding statement of the body computed.\<close>

lemma extract_fields_shape:
  assumes "extract_fields c = Inr s"
  shows "\<exists>species_elem scientific_elem location_elem date_elem time_elem observer_elem
           count_elem rarity_elem name sci loc date_text tm obs cnt rar curl lat lng.
     query_selector c species_selector = Inr species_elem \<and>
     text_or species_elem ''Unknown'' = Inr name \<and>
     query_selector c scientific_selector = Inr scientific_elem \<and>
     text_or scientific_elem [] = Inr sci \<and>
     query_selector c location_selector = Inr location_elem \<and>
     text_or location_elem ''Unknown'' = Inr loc \<and>
     query_selector c date_selector = Inr date_elem \<and>
     text_or date_elem [] = Inr date_text \<and>
     query_selector c time_selector = Inr time_elem \<and>
     text_or time_elem [] = Inr tm \<and>
     query_selector c observer_selector = Inr observer_elem \<and>
     text_or observer_elem ''Unknown'' = Inr obs \<and>
     query_selector c count_selector = Inr count_elem \<and>
     text_or count_elem ''1'' = Inr cnt \<and>
     query_selector c rarity_selector = Inr rarity_elem \<and>
     text_or rarity_elem ''notable'' = Inr rar \<and>
     checklist_url_of c = Inr curl \<and>
     coordinates_of c = Inr (lat, lng) \<and>
     s = [(''species_common_name'', PStr name),
          (''species_scientific_name'', PStr sci),
          (''location'', PStr loc),
          (''date'', PStr (strip date_text)),
          (''time'', PStr tm),
          (''observer'', PStr obs),
          (''count'', PStr cnt),
          (''rarity_level'', PStr (strip (lower rar))),
          (''checklist_url'', curl),
          (''latitude'', lat),
          (''longitude'', lng),
          (''id'', PStr (take 12 (md5_hexdigest (utf8_encode (name @ loc @ strip date_text)))))]"
  using assms unfolding extract_fields_def
  by (auto simp: and_then_Inr_iff put_def Let_def)

text \<open>
  Claim C1. The identifier of an extracted record is the first 12 hexadecimal characters
  of the MD5 digest of its common name, its location and its date, concatenated; so two
  extracted records with the same common name, location and date have the same
  identifier. The date is the text of the date element as the record keeps it, not parsed.
\<close>

theorem identifier_is_md5_prefix:
  assumes "extract_sighting_data c1 = Some s1" and "extract_sighting_data c2 = Some s2"
  shows "(\<exists>name loc date.
            map_of s1 ''species_common_name'' = Some (PStr name) \<and>
            map_of s1 ''location'' = Some (PStr loc) \<and>
            map_of s1 ''date'' = Some (PStr date) \<and>
            map_of s1 ''id'' = Some (PStr (take 12 (md5_hexdigest (utf8_encode (name @ loc @ date))))))
       \<and> (map_of s1 ''species_common_name'' = map_of s2 ''species_common_name'' \<and>
          map_of s1 ''location'' = map_of s2 ''location'' \<and>
          map_of s1 ''date'' = map_of s2 ''date''
          \<longrightarrow> map_of s1 ''id'' = map_of s2 ''id'')"
proof -
  from assms(1) have "extract_fields c1 = Inr s1" by (simp add: extract_Some_iff)
  from extract_fields_shape [OF this] obtain n1 l1 d1 where
    s1: "map_of s1 ''species_common_name'' = Some (PStr n1)"
        "map_of s1 ''location'' = Some (PStr l1)"
        "map_of s1 ''date'' = Some (PStr d1)"
        "map_of s1 ''id'' = Some (PStr (take 12 (md5_hexdigest (utf8_encode (n1 @ l1 @ d1)))))"
    by auto
  from assms(2) have "extract_fields c2 = Inr s2" by (simp add: extract_Some_iff)
  from extract_fields_shape [OF this] obtain n2 l2 d2 where
    s2: "map_of s2 ''species_common_name'' = Some (PStr n2)"
        "map_of s2 ''location'' = Some (PStr l2)"
        "map_of s2 ''date'' = Some (PStr d2)"
        "map_of s2 ''id'' = Some (PStr (take 12 (md5_hexdigest (utf8_encode (n2 @ l2 @ d2)))))"
    by auto
  from s1 have first: "\<exists>name loc date.
            map_of s1 ''species_common_name'' = Some (PStr name) \<and>
            map_of s1 ''location'' = Some (PStr loc) \<and>
            map_of s1 ''date'' = Some (PStr date) \<and>
            map_of s1 ''id'' = Some (PStr (take 12 (md5_hexdigest (utf8_encode (name @ loc @ date)))))"
    by blast
  from s1 s2 have second: "map_of s1 ''species_common_name'' = map_of s2 ''species_common_name'' \<and>
          map_of s1 ''location'' = map_of s2 ''location'' \<and>
          map_of s1 ''date'' = map_of s2 ''date''
          \<longrightarrow> map_of s1 ''id'' = map_of s2 ''id''"
    by simp
  from first second show ?thesis by blast
qed

theorem identifier_is_md5_prefix_witness:
  "extract_sighting_data robin_card = Some robin_sighting \<and>
   extract_sighting_data robin_again = Some robin_again_sighting \<and>
   map_of robin_sighting ''id''
     = Some (PStr (take 12 (md5_hexdigest (utf8_encode '' Robin Central Park2024-01-01'')))) \<and>
   map_of robin_sighting ''id'' = Some (PStr ''db6b82efc47a'') \<and>
   map_of robin_sighting ''id'' = map_of robin_again_sighting ''id''"
proof -
  have triple: "map_of robin_sighting ''species_common_name'' = Some (PStr '' Robin '')"
    "map_of robin_sighting ''location'' = Some (PStr ''Central Park'')"
    "map_of robin_sighting ''date'' = Some (PStr ''2024-01-01'')"
    and same: "map_of robin_sighting ''species_common_name''
                 = map_of robin_again_sighting ''species_common_name''"
      "map_of robin_sighting ''location'' = map_of robin_again_sighting ''location''"
      "map_of robin_sighting ''date'' = map_of robin_again_sighting ''date''"
    by (simp_all add: robin_sighting_def robin_again_sighting_def)
  from identifier_is_md5_prefix [OF robin_extract robin_again_extract] triple same
  have ident: "map_of robin_sighting ''id''
          = Some (PStr (take 12 (md5_hexdigest (utf8_encode '' Robin Central Park2024-01-01''))))"
    and again: "map_of robin_sighting ''id'' = map_of robin_again_sighting ''id''"
    by auto
  from ident have digits: "map_of robin_sighting ''id'' = Some (PStr ''db6b82efc47a'')"
    by (simp add: robin_md5)
  from robin_extract robin_again_extract ident digits again show ?thesis by simp
qed

section \<open>The validator\<close>

lemma validate_sighting_Some:
  "validate_sighting (Some s) =
     list_all (\<lambda>field. truthy (dict_get s field) \<and> dict_get s field \<noteq> PStr ''Unknown'') required"
  by (simp add: validate_sighting_def required_def dict_get_def truthy_def)

lemma field_accepted_iff:
  assumes "\<forall>f. map_of s field \<noteq> Some (PFloat f)"
  shows "truthy (dict_get s field) \<and> dict_get s field \<noteq> PStr ''Unknown''
         \<longleftrightarrow> (\<exists>t. map_of s field = Some (PStr t) \<and> t \<noteq> [] \<and> t \<noteq> ''Unknown'')"
proof (cases "map_of s field")
  case None
  then show ?thesis by (simp add: dict_get_def truthy_def)
next
  case (Some v)
  with assms show ?thesis by (cases v) (simp_all add: dict_get_def truthy_def)
qed

text \<open>
  Claim C2. The validator rejects the absent candidate. A candidate record, whose three
  fields common name, location and date hold text where they hold anything (as they do
  in every extracted record), is accepted if and only if each of the three is there, is
  not empty and is not \<open>Unknown\<close>. Two candidates that agree on these three fields get the
  same decision: no other field has a say.
\<close>

theorem validate_sighting_iff:
  assumes "\<forall>field \<in> set required. \<forall>f. map_of s field \<noteq> Some (PFloat f)"
  shows "\<not> validate_sighting None
       \<and> (validate_sighting (Some s) \<longleftrightarrow>
            (\<forall>field \<in> set required.
               \<exists>t. map_of s field = Some (PStr t) \<and> t \<noteq> [] \<and> t \<noteq> ''Unknown''))
       \<and> (\<forall>s'. (\<forall>field \<in> set required. map_of s' field = map_of s field)
              \<longrightarrow> validate_sighting (Some s') = validate_sighting (Some s))"
proof -
  have absent: "\<not> validate_sighting None"
    by (simp add: validate_sighting_def)
  have decision: "validate_sighting (Some s) \<longleftrightarrow>
            (\<forall>field \<in> set required.
               \<exists>t. map_of s field = Some (PStr t) \<and> t \<noteq> [] \<and> t \<noteq> ''Unknown'')"
    using assms by (simp add: validate_sighting_Some list_all_iff field_accepted_iff)
  have others: "validate_sighting (Some s') = validate_sighting (Some s)"
    if "\<forall>field \<in> set required. map_of s' field = map_of s field" for s'
    using that by (simp add: validate_sighting_Some list_all_iff dict_get_def)
  from absent decision others show ?thesis by blast
qed

theorem validate_sighting_iff_witness:
  "validate_sighting (Some robin_sighting) \<and> \<not> validate_sighting (Some wren_sighting)
   \<and> validate_sighting (Some robin_again_sighting) \<and> \<not> validate_sighting None"
proof -
  have robin: "\<forall>field \<in> set required. \<forall>f. map_of robin_sighting field \<noteq> Some (PFloat f)"
    by (simp add: required_def robin_sighting_def)
  have wren: "\<forall>field \<in> set required. \<forall>f. map_of wren_sighting field \<noteq> Some (PFloat f)"
    by (simp add: required_def wren_sighting_def)
  have same: "\<forall>field \<in> set required. map_of robin_again_sighting field = map_of robin_sighting field"
    by (simp add: required_def robin_sighting_def robin_again_sighting_def)
  have "validate_sighting (Some robin_sighting)"
    using validate_sighting_iff [OF robin] by (simp add: required_def robin_sighting_def)
  moreover have "\<not> validate_sighting (Some wren_sighting)"
    using validate_sighting_iff [OF wren] by (simp add: required_def wren_sighting_def)
  moreover have "validate_sighting (Some robin_again_sighting) = validate_sighting (Some robin_sighting)"
    using validate_sighting_iff [OF robin] same by blast
  moreover have "\<not> validate_sighting None"
    using validate_sighting_iff [OF robin] by blast
  ultimately show ?thesis by simp
qed

section \<open>The coordinate parser\<close>

text \<open>The builtin \<open>float\<close> accepts whatever a group of the pattern matches.\<close>

lemma digit_is_no_space: "is_digit c \<Longrightarrow> \<not> float_space c"
  by (auto simp: is_digit_def float_space_def)

lemma digit_is_lower: "is_digit c \<Longrightarrow> lower_char c = c"
  by (auto simp: is_digit_def lower_char_def Let_def)

lemma dot_facts:
  "\<not> is_digit CHR ''.''" "lower_char CHR ''.'' = CHR ''.''"
  by (simp_all add: is_digit_def lower_char_def code_point_def)

lemma minus_facts:
  "\<not> float_space CHR ''-''" "\<not> is_digit CHR ''-''"
  by (simp_all add: is_digit_def float_space_def code_point_def)

lemma letter_facts:
  "\<not> is_digit CHR ''i''" "\<not> is_digit CHR ''n''" "\<not> is_digit CHR ''+''"
  by (simp_all add: is_digit_def code_point_def)

lemma digits_tail_all_digits:
  "list_all is_digit ds \<Longrightarrow> digits_tail ds = (map digit_val ds, [])"
  by (induction ds rule: digits_tail.induct) simp_all

lemma digits_tail_up_to_dot:
  "list_all is_digit ds \<Longrightarrow>
     digits_tail (ds @ CHR ''.'' # rest) = (map digit_val ds, CHR ''.'' # rest)"
proof (induction ds)
  case Nil
  show ?case by (cases rest) (simp_all add: dot_facts)
next
  case (Cons c ds)
  obtain d cs where tail: "ds @ CHR ''.'' # rest = d # cs"
    by (cases "ds @ CHR ''.'' # rest") simp_all
  from Cons.prems have c: "is_digit c" and ds: "list_all is_digit ds" by simp_all
  from Cons.IH [OF ds] tail have "digits_tail (d # cs) = (map digit_val ds, CHR ''.'' # rest)"
    by simp
  with c tail show ?case by simp
qed

lemma digitpart_all_digits:
  assumes "ds \<noteq> []" and "list_all is_digit ds"
  shows "digitpart ds = Some (map digit_val ds, [])"
  using assms by (cases ds) (simp_all add: digitpart_def digits_tail_all_digits)

lemma digitpart_up_to_dot:
  assumes "ds \<noteq> []" and "list_all is_digit ds"
  shows "digitpart (ds @ CHR ''.'' # rest) = Some (map digit_val ds, CHR ''.'' # rest)"
  using assms by (cases ds) (simp_all add: digitpart_def digits_tail_up_to_dot)

lemma floatnumber_decimal:
  assumes "ip \<noteq> []" and "list_all is_digit ip" and "fp \<noteq> []" and "list_all is_digit fp"
  shows "\<exists>q. floatnumber (ip @ CHR ''.'' # fp) = Some q"
  using assms
  by (simp add: floatnumber_def digitpart_up_to_dot digitpart_all_digits exponent_def)

lemma lower_decimal:
  assumes "list_all is_digit ip" and "list_all is_digit fp"
  shows "lower (ip @ CHR ''.'' # fp) = ip @ CHR ''.'' # fp"
  using assms by (simp add: lower_def list_all_iff digit_is_lower dot_facts map_idI)

lemma strip_spaces_decimal:
  assumes "g \<noteq> []" and "\<not> float_space (hd g)" and "\<not> float_space (last g)"
  shows "rev (dropWhile float_space (rev (dropWhile float_space g))) = g"
proof -
  from assms(1,2) have "dropWhile float_space g = g" by (cases g) simp_all
  moreover from assms(1,3) have "dropWhile float_space (rev g) = rev g"
    by (cases "rev g") (simp_all add: hd_rev [symmetric])
  ultimately show ?thesis by simp
qed


text \<open>A decimal as the pattern matches it: optional minus sign, digits, dot, digits.\<close>

lemma py_float_decimal:
  assumes "sg = [] \<or> sg = ''-''"
      and "ip \<noteq> []" and "list_all is_digit ip" and "fp \<noteq> []" and "list_all is_digit fp"
  shows "\<exists>q. py_float (sg @ ip @ CHR ''.'' # fp) = Inr (Finite q)"
proof -
  let ?body = "ip @ CHR ''.'' # fp"
  from assms(2,3) obtain c cs where ip: "ip = c # cs" "is_digit c"
    by (cases ip) simp_all
  from assms(4,5) have last_fp: "is_digit (last fp)"
    by (simp add: list_all_iff)
  have last_g: "last (sg @ ?body) = last fp"
    using assms(4) by simp
  have hd_space: "\<not> float_space (hd (sg @ ?body))"
    using assms(1) ip by (auto simp: minus_facts digit_is_no_space)
  have stripped: "rev (dropWhile float_space (rev (dropWhile float_space (sg @ ?body))))
                    = sg @ ?body"
    by (rule strip_spaces_decimal) (simp_all add: hd_space last_g last_fp digit_is_no_space)
  have sign: "take_sign (sg @ ?body) = (sg = ''-'', ?body)"
    using assms(1) ip by (auto simp: take_sign_def minus_facts letter_facts)
  have low: "lower ?body = ?body"
    by (rule lower_decimal [OF assms(3,5)])
  have no_word: "?body \<noteq> ''inf''" "?body \<noteq> ''infinity''" "?body \<noteq> ''nan''"
    using ip by (auto simp: letter_facts)
  from floatnumber_decimal [OF assms(2,3,4,5)] obtain q where
    q: "floatnumber ?body = Some q"
    by blast
  have "py_float (sg @ ?body) = Inr (Finite (if sg = ''-'' then - q else q))"
    unfolding py_float_def stripped Let_def sign
    by (simp add: low no_word q del: append.simps)
  then show ?thesis by blast
qed

lemma match_group_Some:
  assumes "match_group s = Some (g, r)"
  shows "\<exists>sg ip fp. g = sg @ ip @ CHR ''.'' # fp \<and> (sg = [] \<or> sg = ''-'')
           \<and> ip \<noteq> [] \<and> list_all is_digit ip \<and> fp \<noteq> [] \<and> list_all is_digit fp"
proof -
  have digits: "list_all is_digit (takeWhile is_digit xs)" for xs
    by (auto simp: list_all_iff dest: set_takeWhileD)
  define p where "p = (case s of [] \<Rightarrow> ([], [])
                       | c # cs \<Rightarrow> if c = CHR ''-'' then ([c], cs) else ([], c # cs))"
  obtain sg s1 where p: "p = (sg, s1)" by (cases p)
  have sg: "sg = [] \<or> sg = ''-''"
    using p unfolding p_def by (auto split: list.splits if_splits)
  from assms obtain s3 where
    g: "g = sg @ takeWhile is_digit s1 @ CHR ''.'' # takeWhile is_digit s3"
    and ne: "takeWhile is_digit s1 \<noteq> []" "takeWhile is_digit s3 \<noteq> []"
    unfolding match_group_def p_def [symmetric] p Let_def
    by (auto split: list.splits if_splits)
  from g sg ne digits [of s1] digits [of s3] show ?thesis by blast
qed

lemma py_float_match_group:
  assumes "match_group s = Some (g, r)"
  shows "\<exists>q. py_float g = Inr (Finite q)"
proof -
  from match_group_Some [OF assms] obtain sg ip fp where
    "g = sg @ ip @ CHR ''.'' # fp" "sg = [] \<or> sg = ''-''"
    "ip \<noteq> []" "list_all is_digit ip" "fp \<noteq> []" "list_all is_digit fp"
    by blast
  with py_float_decimal [of sg ip fp] show ?thesis by simp
qed

lemma match_here_Some:
  assumes "match_here s = Some (g1, g2)"
  shows "\<exists>s1 r1 s2 r2. match_group s1 = Some (g1, r1) \<and> match_group s2 = Some (g2, r2)"
  using assms unfolding match_here_def
  by (auto split: list.splits if_splits option.splits) blast+

lemma re_search_Some:
  assumes "re_search s = Some (g1, g2)"
  shows "\<exists>s1 r1 s2 r2. match_group s1 = Some (g1, r1) \<and> match_group s2 = Some (g2, r2)"
  using assms
proof (induction s)
  case Nil
  then show ?case by simp
next
  case (Cons c cs)
  show ?case
  proof (cases "match_here (c # cs)")
    case None
    with Cons show ?thesis by simp
  next
    case (Some m)
    with Cons.prems have "match_here (c # cs) = Some (g1, g2)" by simp
    then show ?thesis by (rule match_here_Some)
  qed
qed

text \<open>The coordinate parser returns on every address, absent ones included: when the
  pattern matches, both groups are decimals that \<open>float\<close> accepts.\<close>

lemma parse_coordinates_returns:
  "\<exists>r. parse_coordinates_from_url address = Inr r"
proof (cases address)
  case None
  then show ?thesis by (simp add: parse_coordinates_from_url_def)
next
  case (Some u)
  show ?thesis
  proof (cases "re_search u")
    case None
    with Some show ?thesis by (simp add: parse_coordinates_from_url_def)
  next
    case found: (Some m)
    obtain g1 g2 where m: "m = (g1, g2)" by (cases m)
    from re_search_Some found m obtain s1 r1 s2 r2 where
      "match_group s1 = Some (g1, r1)" "match_group s2 = Some (g2, r2)"
      by blast
    with py_float_match_group obtain q1 q2 where
      "py_float g1 = Inr (Finite q1)" "py_float g2 = Inr (Finite q2)"
      by blast
    with Some found m show ?thesis
      by (simp add: parse_coordinates_from_url_def and_then_def)
  qed
qed

lemma search_ll_link:
  "re_search ''https://maps.google.com/maps?ll=37.5,-122.5'' = Some (''37.5'', ''-122.5'')"
  by code_simp

lemma no_markers_in_ll_link:
  "\<not> contains ''@'' ''https://maps.google.com/maps?ll=37.5,-122.5''"
  "\<not> contains ''q='' ''https://maps.google.com/maps?ll=37.5,-122.5''"
  by code_simp+

text \<open>
  Claim C3. The claim asks for \<open>@\<close> or \<open>q=\<close> in front of the two numbers, and so does the
  comment above the pattern in the source. The pattern itself opens with the character
  class \<open>[@q=]\<close>, one character out of three: an equals sign alone in front of the numbers
  is a match. The address below holds neither \<open>@\<close> nor \<open>q=\<close>, and the parser returns a pair
  for it.
\<close>

theorem parse_coordinates_after_equals_sign:
  "parse_coordinates_from_url (Some ''https://maps.google.com/maps?ll=37.5,-122.5'')
     = Inr (Some (Finite 37.5, Finite (- 122.5)))
   \<and> \<not> contains ''@'' ''https://maps.google.com/maps?ll=37.5,-122.5''
   \<and> \<not> contains ''q='' ''https://maps.google.com/maps?ll=37.5,-122.5''"
  by (simp add: parse_coordinates_from_url_def search_ll_link no_markers_in_ll_link
        and_then_def float_eval del: re_search.simps contains.simps)

section \<open>Text fields and their defaults\<close>

lemma takes_text_from_body:
  assumes "query_selector c selector = Inr elem"
      and "text_or elem dflt = Inr t"
      and "map_of s key = Some (PStr (f t))"
      and "f dflt = dflt"
      and "\<And>x. rel (f x) x"
  shows "takes_text rel c s key selector dflt"
proof (cases elem)
  case None
  with assms(2) have "t = dflt" by (simp add: text_or_def)
  with assms(1,3,4) None show ?thesis by (simp add: takes_text_def)
next
  case (Some e)
  with assms(2) have "inner_text e = Inr t" by (simp add: text_or_def)
  with assms(1,3) Some show ?thesis by (simp add: takes_text_def assms(5))
qed

text \<open>
  Claim C4, as the code has it. For every card that yields a record: where no selector
  of a text field matches, the record holds the documented default, \<open>Unknown\<close> for common
  name, location and observer, the empty string for scientific name, date and time, \<open>1\<close>
  for the count and \<open>notable\<close> for the rarity level; where a selector matches, the date is
  the text content of the first match with surrounding whitespace trimmed, the rarity
  level is that text in lower case and trimmed, and each other field is that text up to
  surrounding whitespace.
\<close>

theorem text_fields_and_defaults:
  assumes "extract_sighting_data c = Some s"
  shows "takes_text same_inside c s ''species_common_name'' species_selector ''Unknown''
       \<and> takes_text same_inside c s ''species_scientific_name'' scientific_selector []
       \<and> takes_text same_inside c s ''location'' location_selector ''Unknown''
       \<and> takes_text trimmed c s ''date'' date_selector []
       \<and> takes_text same_inside c s ''time'' time_selector []
       \<and> takes_text same_inside c s ''observer'' observer_selector ''Unknown''
       \<and> takes_text same_inside c s ''count'' count_selector ''1''
       \<and> takes_text lowered_and_trimmed c s ''rarity_level'' rarity_selector ''notable''"
proof -
  from assms have "extract_fields c = Inr s" by (simp add: extract_Some_iff)
  from extract_fields_shape [OF this] obtain species_elem scientific_elem location_elem
      date_elem time_elem observer_elem count_elem rarity_elem name sci loc date_text tm obs
      cnt rar curl lat lng where
    q: "query_selector c species_selector = Inr species_elem"
       "query_selector c scientific_selector = Inr scientific_elem"
       "query_selector c location_selector = Inr location_elem"
       "query_selector c date_selector = Inr date_elem"
       "query_selector c time_selector = Inr time_elem"
       "query_selector c observer_selector = Inr observer_elem"
       "query_selector c count_selector = Inr count_elem"
       "query_selector c rarity_selector = Inr rarity_elem"
    and t: "text_or species_elem ''Unknown'' = Inr name"
       "text_or scientific_elem [] = Inr sci"
       "text_or location_elem ''Unknown'' = Inr loc"
       "text_or date_elem [] = Inr date_text"
       "text_or time_elem [] = Inr tm"
       "text_or observer_elem ''Unknown'' = Inr obs"
       "text_or count_elem ''1'' = Inr cnt"
       "text_or rarity_elem ''notable'' = Inr rar"
    and s: "s = [(''species_common_name'', PStr name),
          (''species_scientific_name'', PStr sci),
          (''location'', PStr loc),
          (''date'', PStr (strip date_text)),
          (''time'', PStr tm),
          (''observer'', PStr obs),
          (''count'', PStr cnt),
          (''rarity_level'', PStr (strip (lower rar))),
          (''checklist_url'', curl),
          (''latitude'', lat),
          (''longitude'', lng),
          (''id'', PStr (take 12 (md5_hexdigest (utf8_encode (name @ loc @ strip date_text)))))]"
    by blast
  have f1: "takes_text same_inside c s ''species_common_name'' species_selector ''Unknown''"
    by (rule takes_text_from_body [where f = "\<lambda>x. x", OF q(1) t(1)])
       (simp_all add: s same_inside_def)
  have f2: "takes_text same_inside c s ''species_scientific_name'' scientific_selector []"
    by (rule takes_text_from_body [where f = "\<lambda>x. x", OF q(2) t(2)])
       (simp_all add: s same_inside_def)
  have f3: "takes_text same_inside c s ''location'' location_selector ''Unknown''"
    by (rule takes_text_from_body [where f = "\<lambda>x. x", OF q(3) t(3)])
       (simp_all add: s same_inside_def)
  have f4: "takes_text trimmed c s ''date'' date_selector []"
    by (rule takes_text_from_body [where f = strip, OF q(4) t(4)])
       (simp_all add: s trimmed_def strip_plain_dates)
  have f5: "takes_text same_inside c s ''time'' time_selector []"
    by (rule takes_text_from_body [where f = "\<lambda>x. x", OF q(5) t(5)])
       (simp_all add: s same_inside_def)
  have f6: "takes_text same_inside c s ''observer'' observer_selector ''Unknown''"
    by (rule takes_text_from_body [where f = "\<lambda>x. x", OF q(6) t(6)])
       (simp_all add: s same_inside_def)
  have f7: "takes_text same_inside c s ''count'' count_selector ''1''"
    by (rule takes_text_from_body [where f = "\<lambda>x. x", OF q(7) t(7)])
       (simp_all add: s same_inside_def)
  have f8: "takes_text lowered_and_trimmed c s ''rarity_level'' rarity_selector ''notable''"
    by (rule takes_text_from_body [where f = "\<lambda>x. strip (lower x)", OF q(8) t(8)])
       (simp_all add: s lowered_and_trimmed_def strip_lower_rarity)
  from f1 f2 f3 f4 f5 f6 f7 f8 show ?thesis by blast
qed

theorem text_fields_and_defaults_witness:
  "takes_text same_inside robin_card robin_sighting ''species_common_name'' species_selector ''Unknown''
   \<and> takes_text trimmed robin_card robin_sighting ''date'' date_selector []
   \<and> takes_text lowered_and_trimmed robin_card robin_sighting ''rarity_level'' rarity_selector ''notable''
   \<and> map_of robin_sighting ''observer'' = Some (PStr ''Unknown'')
   \<and> map_of robin_sighting ''count'' = Some (PStr ''1'')
   \<and> map_of robin_sighting ''date'' = Some (PStr ''2024-01-01'')"
  using text_fields_and_defaults [OF robin_extract]
  by (simp add: robin_sighting_def)

text \<open>
  Claim C4, as stated, fails on the card \<open>robin_card\<close>: the text content of its species
  element is \<open>Robin\<close> with a space on either side and the record keeps both spaces; the
  text content of its rarity element is \<open>RARE\<close> with a space behind and the record holds
  \<open>rare\<close>. Neither is the text content with surrounding whitespace trimmed.
\<close>

theorem text_not_trimmed_counterexample:
  "extract_sighting_data robin_card = Some robin_sighting
   \<and> \<not> takes_text trimmed robin_card robin_sighting ''species_common_name'' species_selector ''Unknown''
   \<and> \<not> takes_text trimmed robin_card robin_sighting ''rarity_level'' rarity_selector ''notable''"
proof -
  have name: "\<not> takes_text trimmed robin_card robin_sighting
                 ''species_common_name'' species_selector ''Unknown''"
    by (simp add: takes_text_def trimmed_def robin_card_def robin_sighting_def
          text_element_def strip_padded_name)
  have rarity: "\<not> takes_text trimmed robin_card robin_sighting
                   ''rarity_level'' rarity_selector ''notable''"
    by (simp add: takes_text_def trimmed_def robin_card_def robin_sighting_def
          text_element_def strip_rarity_text)
  from robin_extract name rarity show ?thesis by simp
qed

section \<open>Coordinates\<close>


lemma map_link_coordinates_eq:
  "map_link_coordinates c =
     and_then (query_selector c map_selector) (\<lambda>map_link.
       case map_link of
         None \<Rightarrow> Inr None
       | Some link \<Rightarrow> and_then (get_attribute link ''href'') parse_coordinates_from_url)"
  by (simp add: map_link_coordinates_def and_then_def split: sum.splits option.splits)


lemma extracted_coordinates:
  assumes "extract_sighting_data c = Some s"
  shows "\<exists>lat lng. coordinates_of c = Inr (lat, lng)
           \<and> map_of s ''latitude'' = Some lat \<and> map_of s ''longitude'' = Some lng"
proof -
  from assms have "extract_fields c = Inr s" by (simp add: extract_Some_iff)
  from extract_fields_shape [OF this] show ?thesis by auto
qed





lemma coordinates_of_skip_map_link:
  assumes "present (card_get_attribute c ''data-lat'')"
  shows "coordinates_of (c\<lparr>query_selector := (query_selector c)(map_selector := answer)\<rparr>)
           = coordinates_of c"
proof -
  from assms obtain x where x: "card_get_attribute c ''data-lat'' = Inr (Some x)" "x \<noteq> []"
    by (auto simp: present_def split: sum.splits option.splits)
  show ?thesis
  proof (cases "py_float x")
    case (Inl e)
    with x show ?thesis
      by (simp add: coordinates_of_def float_or_none_def and_then_def split: sum.splits)
  next
    case (Inr f)
    with x show ?thesis
      by (simp add: coordinates_of_def float_or_none_def and_then_def split: sum.splits)
  qed
qed

lemma extract_skip_map_link:
  assumes "present (card_get_attribute c ''data-lat'')"
  shows "extract_sighting_data (c\<lparr>query_selector := (query_selector c)(map_selector := answer)\<rparr>)
           = extract_sighting_data c"
  by (simp add: extract_sighting_data_def extract_fields_def checklist_url_of_def
        coordinates_of_skip_map_link [OF assms])

lemma text_answers_text_or:
  assumes "text_answers c selector"
  shows "\<exists>elem t. query_selector c selector = Inr elem \<and> text_or elem dflt = Inr t"
proof (cases "query_selector c selector")
  case (Inl e)
  with assms show ?thesis by (simp add: text_answers_def)
next
  case (Inr elem)
  show ?thesis
  proof (cases elem)
    case None
    with Inr show ?thesis by (simp add: text_or_def)
  next
    case (Some e)
    with Inr assms obtain t where "inner_text e = Inr t"
      by (cases "inner_text e") (simp_all add: text_answers_def)
    with Inr Some show ?thesis by (simp add: text_or_def)
  qed
qed

text \<open>A readable card whose coordinate block returns yields a record.\<close>

lemma readable_card_yields_record:
  assumes "readable c" and "coordinates_of c = Inr (lat, lng)"
  shows "\<exists>s. extract_sighting_data c = Some s"
proof -
  from assms(1) have a:
    "text_answers c species_selector" "text_answers c scientific_selector"
    "text_answers c location_selector" "text_answers c date_selector"
    "text_answers c time_selector" "text_answers c observer_selector"
    "text_answers c count_selector" "text_answers c rarity_selector"
    by (simp_all add: readable_def)
  from assms(1) obtain curl where u: "checklist_url_of c = Inr curl"
    by (auto simp: readable_def split: sum.splits)
  from text_answers_text_or [OF a(1)] obtain e1 t1 where
    1: "query_selector c species_selector = Inr e1" "text_or e1 ''Unknown'' = Inr t1" by blast
  from text_answers_text_or [OF a(2)] obtain e2 t2 where
    2: "query_selector c scientific_selector = Inr e2" "text_or e2 [] = Inr t2" by blast
  from text_answers_text_or [OF a(3)] obtain e3 t3 where
    3: "query_selector c location_selector = Inr e3" "text_or e3 ''Unknown'' = Inr t3" by blast
  from text_answers_text_or [OF a(4)] obtain e4 t4 where
    4: "query_selector c date_selector = Inr e4" "text_or e4 [] = Inr t4" by blast
  from text_answers_text_or [OF a(5)] obtain e5 t5 where
    5: "query_selector c time_selector = Inr e5" "text_or e5 [] = Inr t5" by blast
  from text_answers_text_or [OF a(6)] obtain e6 t6 where
    6: "query_selector c observer_selector = Inr e6" "text_or e6 ''Unknown'' = Inr t6" by blast
  from text_answers_text_or [OF a(7)] obtain e7 t7 where
    7: "query_selector c count_selector = Inr e7" "text_or e7 ''1'' = Inr t7" by blast
  from text_answers_text_or [OF a(8)] obtain e8 t8 where
    8: "query_selector c rarity_selector = Inr e8" "text_or e8 ''notable'' = Inr t8" by blast
  show ?thesis
    by (simp add: extract_sighting_data_def extract_fields_def and_then_def Let_def
          1 2 3 4 5 6 7 8 u assms(2))
qed

lemma float_accepts_no_empty_string:
  assumes "py_float x = Inr f"
  shows "x \<noteq> []"
proof -
  have "py_float [] = Inl (Fault ''could not convert string to float'')"
    by (simp add: float_eval)
  with assms show ?thesis by auto
qed

lemma coordinates_of_latitude_alone:
  assumes "card_get_attribute c ''data-lat'' = Inr (Some x)" and "py_float x = Inr f"
      and "card_get_attribute c ''data-lng'' = Inr None"
  shows "coordinates_of c = Inr (PFloat f, PNone)"
  using assms float_accepts_no_empty_string [OF assms(2)]
  by (simp add: coordinates_of_def float_or_none_def and_then_def)

text \<open>
  Claim C10. A readable card with a latitude attribute that \<open>float\<close> accepts and no
  longitude attribute yields a record; the record holds the float of the attribute as
  latitude and null as longitude, and it is the same record whatever the query for the
  map link would answer, a fault included: the query is not made.
\<close>

theorem latitude_alone_skips_map_link:
  assumes "readable c"
      and "card_get_attribute c ''data-lat'' = Inr (Some x)" and "py_float x = Inr f"
      and "card_get_attribute c ''data-lng'' = Inr None"
  shows "\<exists>s. extract_sighting_data c = Some s
           \<and> map_of s ''latitude'' = Some (PFloat f)
           \<and> map_of s ''longitude'' = Some PNone
           \<and> (\<forall>answer. extract_sighting_data
                   (c\<lparr>query_selector := (query_selector c)(map_selector := answer)\<rparr>) = Some s)"
proof -
  note co = coordinates_of_latitude_alone [OF assms(2,3,4)]
  from readable_card_yields_record [OF assms(1) co] obtain s where
    s: "extract_sighting_data c = Some s"
    by blast
  from extracted_coordinates [OF s] co
  have vals: "map_of s ''latitude'' = Some (PFloat f)" "map_of s ''longitude'' = Some PNone"
    by simp_all
  from assms(2) float_accepts_no_empty_string [OF assms(3)]
  have "present (card_get_attribute c ''data-lat'')"
    by (simp add: present_def)
  from extract_skip_map_link [OF this] s
  have "\<forall>answer. extract_sighting_data
                   (c\<lparr>query_selector := (query_selector c)(map_selector := answer)\<rparr>) = Some s"
    by simp
  with s vals show ?thesis by blast
qed

lemma robin_card_readable: "readable robin_card"
  by (simp add: readable_def text_answers_def robin_card_def text_element_def
        checklist_url_of_def and_then_def)

theorem latitude_alone_skips_map_link_witness:
  "query_selector robin_card map_selector = Inl (Fault ''Target closed'')
   \<and> extract_sighting_data robin_card = Some robin_sighting
   \<and> map_of robin_sighting ''latitude'' = Some (PFloat (Finite 12.5))
   \<and> map_of robin_sighting ''longitude'' = Some PNone
   \<and> extract_sighting_data
       (robin_card\<lparr>query_selector := (query_selector robin_card)
          (map_selector := Inr (Some (link_element ''https://www.google.com/maps/@37.123,-122.456,15z'')))\<rparr>)
       = Some robin_sighting"
proof -
  have l: "card_get_attribute robin_card ''data-lng'' = Inr None"
    and q: "query_selector robin_card map_selector = Inl (Fault ''Target closed'')"
    and a: "card_get_attribute robin_card ''data-lat'' = Inr (Some ''12.5'')"
    by (simp_all add: robin_card_def)
  from latitude_alone_skips_map_link [OF robin_card_readable a float_of_latitude l]
       q robin_extract
  show ?thesis by auto
qed

section \<open>Attempts and retries\<close>

lemma alert_url_is_no_login_url:
  "\<not> contains ''login'' (lower ''https://ebird.org/alert/summary?sid=SN35466'')"
  "\<not> contains ''signin'' (lower ''https://ebird.org/alert/summary?sid=SN35466'')"
  by code_simp+

lemma login_url_is_login_url:
  "contains ''login'' (lower ''https://secure.birds.cornell.edu/cassso/login?service=ebird'')"
  by code_simp

lemma login_without_submit_button:
  "\<not> login (working_form\<lparr>find_submit_button := Inr False\<rparr>)"
  by (simp add: login_def and_then_def working_form_def)

lemma attempt_body_listing: "attempt_body (listing cards) = Inr (collect cards)"
  by (simp add: attempt_body_def listing_def and_then_def alert_url_is_no_login_url
           del: contains.simps)

lemma attempt_body_no_markers: "attempt_body no_markers = Inr []"
  by (simp add: attempt_body_def no_markers_def listing_def and_then_def
        alert_url_is_no_login_url del: contains.simps)

lemma attempt_body_no_screenshot:
  "attempt_body no_markers_no_screenshot = Inl (Fault ''Timeout 30000ms exceeded'')"
  by (simp add: attempt_body_def no_markers_no_screenshot_def no_markers_def listing_def
        and_then_def alert_url_is_no_login_url del: contains.simps)

lemma attempt_body_out_of_reach:
  "attempt_body out_of_reach = Inl (Fault ''net::ERR_CONNECTION_REFUSED'')"
  by (simp add: attempt_body_def out_of_reach_def listing_def and_then_def)

lemma attempt_body_login_wall: "attempt_body login_wall = Inl (Fault ''Login failed'')"
  by (simp add: attempt_body_def login_wall_def listing_def and_then_def
        login_url_is_login_url login_without_submit_button del: contains.simps)

lemma three_attempts: "[0..<3] = [0, 1, 2]"
  by (simp add: upt_rec)

text \<open>The three attempts of a run, unrolled: the first attempt that returns ends the
  loop; a fault before the last attempt is followed by the pause and the next attempt;
  the fault of the last attempt is raised.\<close>

lemma scrape_alerts_unrolled:
  "scrape_alerts p 3 =
     (case attempt_body (p 0) of
        Inr found \<Rightarrow> ([Attempt 0], Inr found)
      | Inl e0 \<Rightarrow>
          (case attempt_body (p 1) of
             Inr found \<Rightarrow> ([Attempt 0, Sleep 5, Attempt 1], Inr found)
           | Inl e1 \<Rightarrow>
               (case attempt_body (p 2) of
                  Inr found \<Rightarrow> ([Attempt 0, Sleep 5, Attempt 1, Sleep 5, Attempt 2], Inr found)
                | Inl e2 \<Rightarrow> ([Attempt 0, Sleep 5, Attempt 1, Sleep 5, Attempt 2], Inl e2))))"
  by (simp add: scrape_alerts_def three_attempts split: sum.splits)

lemma scrape_alerts_returns:
  assumes "scrape_alerts p 3 = (evs, Inr found)"
  shows "\<exists>n < 3. attempt_body (p n) = Inr found"
proof -
  have "attempt_body (p 0) = Inr found \<or> attempt_body (p 1) = Inr found
        \<or> attempt_body (p 2) = Inr found"
    using assms unfolding scrape_alerts_unrolled by (auto split: sum.splits)
  then consider "attempt_body (p 0) = Inr found" | "attempt_body (p 1) = Inr found"
    | "attempt_body (p 2) = Inr found"
    by blast
  then show ?thesis
  proof cases
    case 1
    then have "(0::nat) < 3 \<and> attempt_body (p 0) = Inr found" by simp
    then show ?thesis by blast
  next
    case 2
    then have "(1::nat) < 3 \<and> attempt_body (p 1) = Inr found" by simp
    then show ?thesis by blast
  next
    case 3
    then have "(2::nat) < 3 \<and> attempt_body (p 2) = Inr found" by simp
    then show ?thesis by blast
  qed
qed

lemma attempt_body_returns:
  assumes "attempt_body a = Inr found"
  shows "found = [] \<or> (\<exists>cards. query_selector_all a = Inr cards \<and> found = collect cards)"
  using assms unfolding attempt_body_def
  by (auto simp: and_then_Inr_iff split: sum.splits)

lemma validate_sighting_empty: "\<not> validate_sighting (Some [])" "\<not> validate_sighting None"
  by (simp_all add: validate_sighting_def)

lemma collect_eq:
  "collect cards = map the (filter validate_sighting (map extract_sighting_data cards))"
  by (induction cards) (auto simp: validate_sighting_empty split: option.splits)


text \<open>
  Claim C6. The claim holds for the three attempts, the pause, the fault that is raised
  after the last attempt and the error envelope. It fails for the outcome without
  observation markers: the screenshot is taken inside the handler of that outcome, and
  when the screenshot faults the attempt raises and is tried again. On the page below the
  markers never show in the first attempt and the screenshot faults; the scraper pauses
  and makes a second attempt. When this happens in all three attempts the run ends with
  an error envelope that carries the fault of the screenshot.
\<close>

theorem screenshot_fault_is_retried:
  "wait_for_observations (flaky_page 0) = Inl (Fault ''Timeout 15000ms exceeded'')
   \<and> attempt_body (flaky_page 0) = Inl (Fault ''Timeout 30000ms exceeded'')
   \<and> scrape_alerts flaky_page 3 = ([Attempt 0, Sleep 5, Attempt 1], Inr [])
   \<and> output_file (main snapshot_world) = Some (error_envelope ''Timeout 30000ms exceeded'')"
proof -
  have w: "wait_for_observations (flaky_page 0) = Inl (Fault ''Timeout 15000ms exceeded'')"
    by (simp add: flaky_page_def no_markers_no_screenshot_def no_markers_def listing_def)
  have a: "attempt_body (flaky_page 0) = Inl (Fault ''Timeout 30000ms exceeded'')"
    by (simp add: flaky_page_def attempt_body_no_screenshot)
  have s: "scrape_alerts flaky_page 3 = ([Attempt 0, Sleep 5, Attempt 1], Inr [])"
    by (simp add: scrape_alerts_unrolled flaky_page_def attempt_body_no_screenshot
          attempt_body_no_markers)
  have m: "output_file (main snapshot_world) = Some (error_envelope ''Timeout 30000ms exceeded'')"
    by (simp add: main_def snapshot_world_def calm_world_def env_set_def
          scrape_alerts_unrolled attempt_body_no_screenshot write_error_state_def
          create_output_json_def error_envelope_def description_def Let_def)
  from w a s m show ?thesis by simp
qed

theorem screenshot_fault_is_retried_witness:
  "env_set (ebird_username snapshot_world) \<and> env_set (ebird_password snapshot_world)
   \<and> output_file (main snapshot_world) \<noteq> Some empty_envelope
   \<and> fst (scrape_alerts flaky_page 3) = [Attempt 0, Sleep 5, Attempt 1]"
  using screenshot_fault_is_retried
  by (simp add: snapshot_world_def calm_world_def env_set_def error_envelope_def
        empty_envelope_def)

section \<open>Runs and their envelopes\<close>

lemma main_without_secret:
  assumes "\<not> env_set (ebird_username w) \<or> \<not> env_set (ebird_password w)"
  shows "main w = \<lparr>events = [], built = [], output_file = None, escaped = None\<rparr>"
  using assms by (auto simp: main_def)

lemma main_without_browser:
  assumes "env_set (ebird_username w)" and "env_set (ebird_password w)"
      and "start_browser w = Inl e"
  shows "main w = \<lparr>events = [Launch], built = [], output_file = None, escaped = Some e\<rparr>"
  using assms by (simp add: main_def)

text \<open>What a run builds and writes once the session is started and the scraper has
  returned or raised.\<close>

lemma main_after_scrape:
  assumes "env_set (ebird_username w)" and "env_set (ebird_password w)"
      and "start_browser w = Inr u" and "scrape_alerts (page w) 3 = (evs, r)"
  shows "built (main w) =
           (case r of
              Inr found \<Rightarrow>
                (if found \<noteq> [] then create_output_json (now w 0) found ''success'' None
                 else create_output_json (now w 0) [] ''warning'' (Some ''No sightings found''))
                # (case write_output w 0 of
                     Inr _ \<Rightarrow> []
                   | Inl e \<Rightarrow> [create_output_json (now w 1) [] ''error'' (Some (description e))])
            | Inl e \<Rightarrow> [create_output_json (now w 0) [] ''error'' (Some (description e))])"
    and "output_file (main w) =
           (case r of
              Inr found \<Rightarrow>
                (case write_output w 0 of
                   Inr _ \<Rightarrow>
                     Some (if found \<noteq> [] then create_output_json (now w 0) found ''success'' None
                           else create_output_json (now w 0) [] ''warning''
                                  (Some ''No sightings found''))
                 | Inl e \<Rightarrow>
                     (case write_output w 1 of
                        Inr _ \<Rightarrow> Some (create_output_json (now w 1) [] ''error''
                                         (Some (description e)))
                      | Inl e' \<Rightarrow> None))
            | Inl e \<Rightarrow>
                (case write_output w 0 of
                   Inr _ \<Rightarrow> Some (create_output_json (now w 0) [] ''error''
                                    (Some (description e)))
                 | Inl e' \<Rightarrow> None))"
  using assms
  by (auto simp: main_def write_error_state_def Let_def split: sum.splits)

text \<open>When all three attempts fault, the fault of the last one is raised, and \<open>main\<close>
  builds the error envelope with its description.\<close>

lemma last_fault_reaches_envelope:
  assumes "env_set (ebird_username w)" and "env_set (ebird_password w)"
      and "start_browser w = Inr u"
      and "attempt_body (page w 0) = Inl e0" and "attempt_body (page w 1) = Inl e1"
      and "attempt_body (page w 2) = Inl e2"
  shows "scrape_alerts (page w) 3
           = ([Attempt 0, Sleep 5, Attempt 1, Sleep 5, Attempt 2], Inl e2)"
    and "built (main w) = [create_output_json (now w 0) [] ''error'' (Some (description e2))]"
    and "events (main w)
           = [Launch, Attempt 0, Sleep 5, Attempt 1, Sleep 5, Attempt 2, Close]"
proof -
  show scrape: "scrape_alerts (page w) 3
           = ([Attempt 0, Sleep 5, Attempt 1, Sleep 5, Attempt 2], Inl e2)"
    using assms(4,5,6) by (simp add: scrape_alerts_unrolled)
  from main_after_scrape(1) [OF assms(1,2,3) scrape]
  show "built (main w) = [create_output_json (now w 0) [] ''error'' (Some (description e2))]"
    by simp
  from assms(1,2,3) scrape
  show "events (main w)
           = [Launch, Attempt 0, Sleep 5, Attempt 1, Sleep 5, Attempt 2, Close]"
    by (simp add: main_def split: prod.splits)
qed

lemma down_world_run:
  "output_file (main down_world) = Some (error_envelope ''Login failed'')"
  "events (main down_world) = [Launch, Attempt 0, Sleep 5, Attempt 1, Sleep 5, Attempt 2, Close]"
proof -
  have s: "env_set (ebird_username down_world)" "env_set (ebird_password down_world)"
          "start_browser down_world = Inr ()"
    by (simp_all add: down_world_def calm_world_def env_set_def)
  have a: "attempt_body (page down_world 0) = Inl (Fault ''net::ERR_CONNECTION_REFUSED'')"
          "attempt_body (page down_world 1) = Inl (Fault ''net::ERR_CONNECTION_REFUSED'')"
          "attempt_body (page down_world 2) = Inl (Fault ''Login failed'')"
    by (simp_all add: down_world_def attempt_body_out_of_reach attempt_body_login_wall)
  note r = last_fault_reaches_envelope [OF s a]
  from main_after_scrape(2) [OF s r(1)]
  show "output_file (main down_world) = Some (error_envelope ''Login failed'')"
    by (simp add: down_world_def calm_world_def create_output_json_def error_envelope_def
          description_def)
  from r(3)
  show "events (main down_world)
          = [Launch, Attempt 0, Sleep 5, Attempt 1, Sleep 5, Attempt 2, Close]" .
qed

text \<open>
  Claim C7. In a run whose scraper returns: with no valid sighting the envelope built
  has status \<open>warning\<close>, count 0, an error message and no sightings; with some, it has
  status \<open>success\<close>, the number of sightings as count and the sightings as they were
  returned. What is returned is empty or the valid records of the cards of the attempt
  that returned, in the order of the cards. The envelope is the content of the output
  file when the write succeeds.
\<close>

theorem envelope_of_completed_scrape:
  assumes "env_set (ebird_username w)" and "env_set (ebird_password w)"
      and "start_browser w = Inr u" and "scrape_alerts (page w) 3 = (evs, Inr found)"
  shows "built (main w) \<noteq> []
       \<and> (found = [] \<longrightarrow>
            hd (built (main w)) =
              \<lparr>metadata = \<lparr>location_code = ''SN35466'', location_name = ''eBird Alert Location'',
                            last_updated = now w 0, scrape_status = ''warning'',
                            total_sightings = 0,
                            error_message = Some ''No sightings found''\<rparr>,
               sightings = []\<rparr>)
       \<and> (found \<noteq> [] \<longrightarrow>
            hd (built (main w)) =
              \<lparr>metadata = \<lparr>location_code = ''SN35466'', location_name = ''eBird Alert Location'',
                            last_updated = now w 0, scrape_status = ''success'',
                            total_sightings = length found, error_message = None\<rparr>,
               sightings = found\<rparr>)
       \<and> (write_output w 0 = Inr () \<longrightarrow> output_file (main w) = Some (hd (built (main w))))
       \<and> (found = [] \<or>
            (\<exists>n cards. n < 3 \<and> query_selector_all (page w n) = Inr cards \<and>
               found = map the (filter validate_sighting (map extract_sighting_data cards))))"
proof -
  note m = main_after_scrape [OF assms]
  have nonempty: "built (main w) \<noteq> []"
    and warning: "found = [] \<longrightarrow>
            hd (built (main w)) =
              \<lparr>metadata = \<lparr>location_code = ''SN35466'', location_name = ''eBird Alert Location'',
                            last_updated = now w 0, scrape_status = ''warning'',
                            total_sightings = 0,
                            error_message = Some ''No sightings found''\<rparr>,
               sightings = []\<rparr>"
    and success: "found \<noteq> [] \<longrightarrow>
            hd (built (main w)) =
              \<lparr>metadata = \<lparr>location_code = ''SN35466'', location_name = ''eBird Alert Location'',
                            last_updated = now w 0, scrape_status = ''success'',
                            total_sightings = length found, error_message = None\<rparr>,
               sightings = found\<rparr>"
    and written: "write_output w 0 = Inr () \<longrightarrow> output_file (main w) = Some (hd (built (main w)))"
    by (simp_all add: m create_output_json_def)
  from scrape_alerts_returns [OF assms(4)] obtain n where
    n: "n < 3" "attempt_body (page w n) = Inr found"
    by blast
  from attempt_body_returns [OF n(2)] n(1)
  have origin: "found = [] \<or>
            (\<exists>n cards. n < 3 \<and> query_selector_all (page w n) = Inr cards \<and>
               found = map the (filter validate_sighting (map extract_sighting_data cards)))"
    by (auto simp: collect_eq)
  from nonempty warning success written origin show ?thesis by blast
qed

lemma example_validation:
  "validate_sighting (Some robin_sighting)"
  "\<not> validate_sighting (Some wren_sighting)"
  "validate_sighting (Some owl_sighting)"
  by (simp_all add: validate_sighting_def required_def dict_get_def truthy_def
        robin_sighting_def wren_sighting_def owl_sighting_def)

lemma collect_valid:
  assumes "extract_sighting_data c = Some s" and "s \<noteq> []" and "validate_sighting (Some s)"
  shows "collect (c # cards) = s # collect cards"
  using assms by simp

lemma collect_invalid:
  assumes "extract_sighting_data c = Some s" and "\<not> validate_sighting (Some s)"
  shows "collect (c # cards) = collect cards"
  using assms by simp

lemma collect_three_cards:
  "collect [robin_card, wren_card, owl_card] = [robin_sighting, owl_sighting]"
proof -
  have robin: "robin_sighting \<noteq> []" and owl: "owl_sighting \<noteq> []"
    by (simp_all add: robin_sighting_def owl_sighting_def)
  have first: "collect [robin_card, wren_card, owl_card]
                 = robin_sighting # collect [wren_card, owl_card]"
    by (rule collect_valid [OF robin_extract robin example_validation(1)])
  have second: "collect [wren_card, owl_card] = collect [owl_card]"
    by (rule collect_invalid [OF wren_extract example_validation(2)])
  have third: "collect [owl_card] = owl_sighting # collect []"
    by (rule collect_valid [OF owl_extract owl example_validation(3)])
  show ?thesis by (simp only: first second third collect.simps(1))
qed

lemma calm_scrape:
  "scrape_alerts (page calm_world) 3 = ([Attempt 0], Inr [robin_sighting, owl_sighting])"
  by (simp add: scrape_alerts_unrolled calm_world_def attempt_body_listing collect_three_cards
           del: collect.simps)

lemma empty_scrape: "scrape_alerts (page empty_world) 3 = ([Attempt 0], Inr [])"
  by (simp add: scrape_alerts_unrolled empty_world_def calm_world_def attempt_body_no_markers)

lemma calm_surroundings:
  "env_set (ebird_username calm_world)" "env_set (ebird_password calm_world)"
  "start_browser calm_world = Inr ()" "write_output calm_world 0 = Inr ()"
  "now calm_world 0 = ''2024-01-04T06:00:00+00:00''"
  by (simp_all add: calm_world_def env_set_def)

lemma empty_surroundings:
  "env_set (ebird_username empty_world)" "env_set (ebird_password empty_world)"
  "start_browser empty_world = Inr ()" "write_output empty_world 0 = Inr ()"
  "now empty_world 0 = ''2024-01-04T06:00:00+00:00''"
  by (simp_all add: empty_world_def calm_world_def env_set_def)

theorem envelope_of_completed_scrape_witness:
  "hd (built (main calm_world)) = calm_envelope
   \<and> output_file (main calm_world) = Some calm_envelope
   \<and> total_sightings (metadata calm_envelope) = 2
   \<and> sightings calm_envelope = [robin_sighting, owl_sighting]
   \<and> hd (built (main empty_world)) = empty_envelope
   \<and> output_file (main empty_world) = Some empty_envelope"
proof -
  have some: "[robin_sighting, owl_sighting] \<noteq> []" by simp
  from envelope_of_completed_scrape
         [OF calm_surroundings(1) calm_surroundings(2) calm_surroundings(3) calm_scrape] some
  have calm: "hd (built (main calm_world)) = calm_envelope
              \<and> output_file (main calm_world) = Some calm_envelope"
    by (simp add: calm_surroundings calm_envelope_def)
  from envelope_of_completed_scrape
         [OF empty_surroundings(1) empty_surroundings(2) empty_surroundings(3) empty_scrape]
  have empty: "hd (built (main empty_world)) = empty_envelope
               \<and> output_file (main empty_world) = Some empty_envelope"
    by (simp add: empty_surroundings empty_envelope_def)
  from calm empty show ?thesis by (simp add: calm_envelope_def)
qed

text \<open>
  Claim C8, as the code has it. A run with an unset or empty secret does nothing: no
  event, no envelope, no output file. The output file is also missing after a run whose
  browser session does not start, which happens outside the \<open>try\<close> block of \<open>main\<close>,
  and after a run in which every write of the file faults; in no other run.
\<close>

theorem output_file_absent_iff:
  "(\<not> env_set (ebird_username w) \<or> \<not> env_set (ebird_password w) \<longrightarrow>
      events (main w) = [] \<and> built (main w) = [] \<and> output_file (main w) = None)
   \<and> (output_file (main w) = None \<longleftrightarrow>
        \<not> env_set (ebird_username w) \<or> \<not> env_set (ebird_password w)
        \<or> isl (start_browser w)
        \<or> (isl (write_output w 0)
            \<and> (isl (snd (scrape_alerts (page w) 3)) \<or> isl (write_output w 1))))"
proof (cases "\<not> env_set (ebird_username w) \<or> \<not> env_set (ebird_password w)")
  case True
  from main_without_secret [OF True] True show ?thesis by auto
next
  case secrets: False
  show ?thesis
  proof (cases "start_browser w")
    case (Inl e)
    with secrets main_without_browser [of w e] show ?thesis by simp
  next
    case (Inr u)
    obtain evs r where r: "scrape_alerts (page w) 3 = (evs, r)"
      by (cases "scrape_alerts (page w) 3")
    from secrets have s: "env_set (ebird_username w)" "env_set (ebird_password w)"
      by simp_all
    from main_after_scrape(2) [OF s Inr r] secrets Inr r show ?thesis
      by (auto split: sum.splits)
  qed
qed

theorem output_file_absent_iff_witness:
  "\<not> env_set (ebird_password no_secret_world)
   \<and> events (main no_secret_world) = []
   \<and> output_file (main no_secret_world) = None
   \<and> output_file (main calm_world) \<noteq> None"
proof -
  have secret: "\<not> env_set (ebird_password no_secret_world)"
    by (simp add: no_secret_world_def calm_world_def env_set_def)
  with output_file_absent_iff [of no_secret_world]
  have none: "events (main no_secret_world) = [] \<and> output_file (main no_secret_world) = None"
    by blast
  have "\<not> isl (start_browser calm_world)" "\<not> isl (write_output calm_world 0)"
    by (simp_all add: calm_surroundings)
  with output_file_absent_iff [of calm_world] calm_surroundings(1,2)
  have "output_file (main calm_world) \<noteq> None"
    by blast
  with secret none show ?thesis by simp
qed

text \<open>
  Claim C8, as stated, fails on the run \<open>no_browser_world\<close>: both secrets are set, the
  browser does not start, and the run leaves no output file.
\<close>

theorem absent_output_counterexample:
  "env_set (ebird_username no_browser_world) \<and> env_set (ebird_password no_browser_world)
   \<and> start_browser no_browser_world = Inl (Fault ''Executable does not exist'')
   \<and> output_file (main no_browser_world) = None"
  by (simp add: main_def no_browser_world_def calm_world_def env_set_def)

section \<open>The fields of a sighting in the output\<close>









end
